theory Spec2Isabelle
  imports Complex_Main "HOL-Library.AList"
begin

section \<open>Python values, exceptions and string helpers\<close>

text \<open>
  The values that flow through the fields of the LVM object, through the dictionaries
  built from tool output and through command lines: \<open>None\<close>, booleans, integers and
  byte strings.
\<close>

datatype pyval = PyNone | PyBool bool | PyInt int | PyStr string

text \<open>
  A Python dictionary with string keys, as an association list; a subscript on a missing
  key raises \<open>KeyError\<close>.
\<close>

type_synonym pydict = "(string \<times> pyval) list"

text \<open>
  The exceptions of the code, all of them classes derived from \<open>Exception\<close> (the ones
  a handler \<open>except Exception\<close> catches). \<open>ProcessExecutionError\<close> (exit code, stdout,
  stderr) is what the command executor raises on a non-zero exit; \<open>SocketError\<close> stands
  for a transport failure of a remote session; \<open>BareRaise\<close> is what a bare \<open>raise\<close>
  with no exception being handled gives (a \<open>TypeError\<close> in Python 2); \<open>SSHException\<close>
  takes the two positional arguments the code passes to it: the message template and the
  dictionary of local variables. \<open>ValueError\<close>, \<open>OverflowError\<close> and
  \<open>ZeroDivisionError\<close> come from number conversion and float arithmetic, and
  \<open>AttributeError\<close> from a name that a module does not define.
\<close>

datatype exn =
    ProcessExecutionError int string string
  | OSError string
  | SocketError string
  | IndexError
  | KeyError string
  | BareRaise
  | VolumeGroupNotFound string
  | SSHException string pydict
  | ValueError string
  | OverflowError
  | ZeroDivisionError
  | AttributeError string

definition bind_exn :: "exn + 'a \<Rightarrow> ('a \<Rightarrow> exn + 'b) \<Rightarrow> exn + 'b" where
  "bind_exn m f = (case m of Inl e \<Rightarrow> Inl e | Inr x \<Rightarrow> f x)"

text \<open>\<open>xs[i]\<close> for a non-negative literal index: \<open>IndexError\<close> out of range.\<close>

definition py_index :: "'a list \<Rightarrow> nat \<Rightarrow> exn + 'a" where
  "py_index xs i = (if i < length xs then Inr (xs ! i) else Inl IndexError)"

text \<open>\<open>d[k]\<close>: \<open>KeyError\<close> when the key is missing.\<close>

definition getitem :: "pydict \<Rightarrow> string \<Rightarrow> exn + pyval" where
  "getitem d k = (case map_of d k of None \<Rightarrow> Inl (KeyError k) | Some v \<Rightarrow> Inr v)"

text \<open>The whitespace of \<open>str.split()\<close> and of the regular expression class \<open>\s\<close>.\<close>

definition isspace :: "char \<Rightarrow> bool" where
  "isspace c = (c = CHR '' '' \<or> c = CHR 0x09 \<or> c = CHR 0x0A \<or> c = CHR 0x0B
     \<or> c = CHR 0x0C \<or> c = CHR 0x0D)"

text \<open>
  \<open>s.split()\<close>: the maximal runs of non-whitespace characters, in order; no empty
  string is ever produced.
\<close>

fun py_split_acc :: "string \<Rightarrow> string \<Rightarrow> string list" where
  "py_split_acc cur [] = (if cur = [] then [] else [cur])"
| "py_split_acc cur (c # cs) =
     (if isspace c
      then (if cur = [] then py_split_acc [] cs else cur # py_split_acc [] cs)
      else py_split_acc (cur @ [c]) cs)"

definition py_split :: "string \<Rightarrow> string list" where
  "py_split s = py_split_acc [] s"

text \<open>
  \<open>s.split(sep)\<close> for a one-character separator: every occurrence splits, empty
  fields are kept, and the result has at least one element.
\<close>

fun split_sep_acc :: "char \<Rightarrow> string \<Rightarrow> string \<Rightarrow> string list" where
  "split_sep_acc sep cur [] = [cur]"
| "split_sep_acc sep cur (c # cs) =
     (if c = sep then cur # split_sep_acc sep [] cs else split_sep_acc sep (cur @ [c]) cs)"

definition split_sep :: "char \<Rightarrow> string \<Rightarrow> string list" where
  "split_sep sep s = split_sep_acc sep [] s"

text \<open>\<open>sep.join(xs)\<close>.\<close>

fun py_join :: "string \<Rightarrow> string list \<Rightarrow> string" where
  "py_join sep [] = []"
| "py_join sep [x] = x"
| "py_join sep (x # y # ys) = x @ sep @ py_join sep (y # ys)"

text \<open>
  \<open>izip(*[iter(xs)] * 3)\<close>: the elements three at a time from one shared iterator; the
  zip stops as soon as the iterator runs dry, so an incomplete last group is dropped.
\<close>

fun izip3 :: "'a list \<Rightarrow> ('a \<times> 'a \<times> 'a) list" where
  "izip3 (a # b # c # rest) = (a, b, c) # izip3 rest"
| "izip3 _ = []"

text \<open>
  \<open>int(s)\<close> on a string: decimal digits with an optional sign, and whitespace allowed
  around the number; every other string is a \<open>ValueError\<close>.
\<close>

definition is_digit :: "char \<Rightarrow> bool" where
  "is_digit c = (c \<in> set ''0123456789'')"

definition digits_value :: "string \<Rightarrow> nat" where
  "digits_value ds = foldl (\<lambda>a c. 10 * a + (of_char c - 48)) 0 ds"

definition strip :: "string \<Rightarrow> string" where
  "strip s = rev (dropWhile isspace (rev (dropWhile isspace s)))"

definition py_int :: "string \<Rightarrow> exn + int" where
  "py_int s =
     (let t = strip s;
          negative = (case t of c # r \<Rightarrow> c = CHR ''-'' | [] \<Rightarrow> False);
          ds = (case t of c # r \<Rightarrow> if c = CHR ''-'' \<or> c = CHR ''+'' then r else t | [] \<Rightarrow> t)
      in if ds \<noteq> [] \<and> list_all is_digit ds
         then Inr (if negative then - int (digits_value ds) else int (digits_value ds))
         else Inl (ValueError s))"

text \<open>\<open>str(i)\<close> on an integer: its decimal digits, with a minus sign when negative.\<close>

fun digits_of :: "nat \<Rightarrow> string" where
  "digits_of n =
     (if n < 10 then [''0123456789'' ! n]
      else digits_of (n div 10) @ [''0123456789'' ! (n mod 10)])"

definition py_str :: "int \<Rightarrow> string" where
  "py_str i = (if i < 0 then CHR ''-'' # digits_of (nat (- i)) else digits_of (nat i))"

section \<open>The command executor and the world it acts on\<close>

text \<open>
  One call of \<open>putils.execute(*cmd, root_helper=..., run_as_root=...)\<close>: the argument
  vector and the two keyword arguments the code uses.
\<close>

record exec_call =
  argv :: "pyval list"
  root_helper :: "string option"
  run_as_root :: bool

text \<open>
  The system the commands run on is a parameter: a state of any type and a function that
  answers a call in a state with the captured \<open>(stdout, stderr)\<close> or with the exception
  the executor raises, and gives the next state.
\<close>

type_synonym 's executor = "exec_call \<Rightarrow> 's \<Rightarrow> (exn + string \<times> string) \<times> 's"

text \<open>
  The world of a run: the system's state, the calls issued so far (oldest first) and the
  messages written with \<open>LOG.error\<close>.
\<close>

record 's world =
  sys :: 's
  issued :: "exec_call list"
  logged :: "string list"

definition execute :: "'s executor \<Rightarrow> exec_call \<Rightarrow> 's world \<Rightarrow> (exn + string \<times> string) \<times> 's world" where
  "execute ex c w =
     (case ex c (sys w) of (r, s') \<Rightarrow> (r, w\<lparr>sys := s', issued := issued w @ [c]\<rparr>))"

definition log_error :: "string \<Rightarrow> 's world \<Rightarrow> 's world" where
  "log_error msg w = w\<lparr>logged := logged w @ [msg]\<rparr>"

definition sudo_call :: "pyval list \<Rightarrow> exec_call" where
  "sudo_call args = \<lparr>argv = args, root_helper = Some ''sudo'', run_as_root = True\<rparr>"

section \<open>The LVM object (cinder/brick/lvm.py)\<close>

text \<open>
  The fields set by \<open>LVM.__init__\<close>. \<open>pv_list\<close> holds device names after construction
  with physical volumes and dictionaries after \<open>get_physical_volumes\<close>; the four
  \<open>vg_\<close> fields start as \<open>0\<close> and \<open>None\<close> and are later given strings of tool output.
\<close>

record lvm =
  vg_name :: string
  pv_list :: "(string + pydict) list"
  lv_list :: "pydict list"
  vg_size :: pyval
  vg_available_space :: pyval
  vg_lv_count :: pyval
  vg_uuid :: pyval

subsection \<open>Inventory queries\<close>

definition lvs_call :: "string option \<Rightarrow> exec_call" where
  "lvs_call vg =
     sudo_call (map PyStr [''lvs'', ''--noheadings'', ''-o'', ''vg_name,name,size'']
       @ (case vg of None \<Rightarrow> [] | Some v \<Rightarrow> [PyStr v]))"

definition lv_dict :: "string \<times> string \<times> string \<Rightarrow> pydict" where
  "lv_dict t = (case t of (vg, nm, sz) \<Rightarrow>
     [(''vg'', PyStr vg), (''name'', PyStr nm), (''size'', PyStr sz)])"

text \<open>\<open>LVM.get_all_volumes\<close> (static).\<close>

definition get_all_volumes :: "'s executor \<Rightarrow> string option \<Rightarrow> 's world \<Rightarrow> (exn + pydict list) \<times> 's world" where
  "get_all_volumes ex vg w =
     (case execute ex (lvs_call vg) w of
        (Inl e, w') \<Rightarrow> (Inl e, w')
      | (Inr (out, err), w') \<Rightarrow> (Inr (map lv_dict (izip3 (py_split out))), w'))"

text \<open>\<open>LVM.get_volumes\<close>: the inventory of the bound group, stored in \<open>lv_list\<close>.\<close>

definition get_volumes :: "'s executor \<Rightarrow> lvm \<Rightarrow> 's world \<Rightarrow> (exn + pydict list) \<times> lvm \<times> 's world" where
  "get_volumes ex self w =
     (case get_all_volumes ex (Some (vg_name self)) w of
        (Inl e, w') \<Rightarrow> (Inl e, self, w')
      | (Inr lvs, w') \<Rightarrow> (Inr lvs, self\<lparr>lv_list := lvs\<rparr>, w'))"

text \<open>
  The loop of \<open>LVM.get_volume\<close>: the first dictionary whose \<open>'name'\<close> equals the
  requested name; falling off the end of the function returns \<open>None\<close>.
\<close>

fun get_volume_loop :: "pydict list \<Rightarrow> string \<Rightarrow> exn + pydict option" where
  "get_volume_loop [] nm = Inr None"
| "get_volume_loop (r # rs) nm =
     (case getitem r ''name'' of
        Inl e \<Rightarrow> Inl e
      | Inr v \<Rightarrow> if v = PyStr nm then Inr (Some r) else get_volume_loop rs nm)"

definition get_volume :: "'s executor \<Rightarrow> lvm \<Rightarrow> string \<Rightarrow> 's world \<Rightarrow> (exn + pydict option) \<times> lvm \<times> 's world" where
  "get_volume ex self nm w =
     (case get_volumes ex self w of
        (Inl e, self', w') \<Rightarrow> (Inl e, self', w')
      | (Inr ref_list, self', w') \<Rightarrow> (get_volume_loop ref_list nm, self', w'))"

subsection \<open>Physical volumes and volume groups\<close>

text \<open>
  A \<open>for\<close> loop that appends one element per item: the first item whose element raises
  ends the loop with that exception.
\<close>

fun for_append :: "('a \<Rightarrow> exn + 'b) \<Rightarrow> 'a list \<Rightarrow> exn + 'b list" where
  "for_append f [] = Inr []"
| "for_append f (x # xs) =
     (case f x of
        Inl e \<Rightarrow> Inl e
      | Inr y \<Rightarrow> (case for_append f xs of Inl e \<Rightarrow> Inl e | Inr ys \<Rightarrow> Inr (y # ys)))"

definition pvs_call :: "string option \<Rightarrow> exec_call" where
  "pvs_call vg =
     sudo_call (map PyStr [''pvs'', ''--noheadings'', ''-o'', ''vg_name,name,size,free'',
                           ''--separator'', '':'']
       @ (case vg of None \<Rightarrow> [] | Some v \<Rightarrow> [PyStr v]))"

text \<open>The body of the loop of \<open>get_all_physical_volumes\<close>: \<open>fields[0]\<close> to \<open>fields[3]\<close>.\<close>

definition pv_dict :: "string \<Rightarrow> exn + pydict" where
  "pv_dict pv =
     (let fields = split_sep CHR '':'' pv in
      bind_exn (py_index fields 0) (\<lambda>f0.
      bind_exn (py_index fields 1) (\<lambda>f1.
      bind_exn (py_index fields 2) (\<lambda>f2.
      bind_exn (py_index fields 3) (\<lambda>f3.
        Inr [(''vg'', PyStr f0), (''name'', PyStr f1), (''size'', PyStr f2),
             (''available'', PyStr f3)])))))"

text \<open>\<open>LVM.get_all_physical_volumes\<close> (static).\<close>

definition get_all_physical_volumes :: "'s executor \<Rightarrow> string option \<Rightarrow> 's world \<Rightarrow> (exn + pydict list) \<times> 's world" where
  "get_all_physical_volumes ex vg w =
     (case execute ex (pvs_call vg) w of
        (Inl e, w') \<Rightarrow> (Inl e, w')
      | (Inr (out, err), w') \<Rightarrow> (for_append pv_dict (py_split out), w'))"

definition get_physical_volumes :: "'s executor \<Rightarrow> lvm \<Rightarrow> 's world \<Rightarrow> (exn + pydict list) \<times> lvm \<times> 's world" where
  "get_physical_volumes ex self w =
     (case get_all_physical_volumes ex (Some (vg_name self)) w of
        (Inl e, w') \<Rightarrow> (Inl e, self, w')
      | (Inr pvs, w') \<Rightarrow> (Inr pvs, self\<lparr>pv_list := map Inr pvs\<rparr>, w'))"

definition vgs_call :: "string option \<Rightarrow> exec_call" where
  "vgs_call vg =
     sudo_call (map PyStr [''vgs'', ''--noheadings'', ''-o'', ''name,size,free,lv_count,uuid'',
                           ''--separator'', '':'']
       @ (case vg of None \<Rightarrow> [] | Some v \<Rightarrow> [PyStr v]))"

definition vg_dict :: "string \<Rightarrow> exn + pydict" where
  "vg_dict vg =
     (let fields = split_sep CHR '':'' vg in
      bind_exn (py_index fields 0) (\<lambda>f0.
      bind_exn (py_index fields 1) (\<lambda>f1.
      bind_exn (py_index fields 2) (\<lambda>f2.
      bind_exn (py_index fields 3) (\<lambda>f3.
      bind_exn (py_index fields 4) (\<lambda>f4.
        Inr [(''name'', PyStr f0), (''size'', PyStr f1), (''available'', PyStr f2),
             (''lv_count'', PyStr f3), (''uuid'', PyStr f4)]))))))"

text \<open>\<open>LVM.get_all_volume_groups\<close> (static).\<close>

definition get_all_volume_groups :: "'s executor \<Rightarrow> string option \<Rightarrow> 's world \<Rightarrow> (exn + pydict list) \<times> 's world" where
  "get_all_volume_groups ex vg w =
     (case execute ex (vgs_call vg) w of
        (Inl e, w') \<Rightarrow> (Inl e, w')
      | (Inr (out, err), w') \<Rightarrow> (for_append vg_dict (py_split out), w'))"

text \<open>\<open>vg_list[0][k]\<close>.\<close>

definition first_item :: "pydict list \<Rightarrow> string \<Rightarrow> exn + pyval" where
  "first_item vg_list k = bind_exn (py_index vg_list 0) (\<lambda>d. getitem d k)"

text \<open>
  \<open>LVM.update_volume_group_info\<close>. The list it reads is the one
  \<open>get_all_physical_volumes\<close> returns. The four assignments run in order, so the
  fields assigned before an exception keep their new values.
\<close>

definition update_volume_group_info :: "'s executor \<Rightarrow> lvm \<Rightarrow> 's world \<Rightarrow> (exn + pydict) \<times> lvm \<times> 's world" where
  "update_volume_group_info ex self w =
     (case get_all_physical_volumes ex (Some (vg_name self)) w of
        (Inl e, w1) \<Rightarrow> (Inl e, self, w1)
      | (Inr vg_list, w1) \<Rightarrow>
          (let w2 = (if length vg_list > 1
                     then log_error ''Something is seriously jacked up....'' w1 else w1) in
           case first_item vg_list ''size'' of
             Inl e \<Rightarrow> (Inl e, self, w2)
           | Inr v1 \<Rightarrow>
          (let self1 = self\<lparr>vg_size := v1\<rparr> in
           case first_item vg_list ''available'' of
             Inl e \<Rightarrow> (Inl e, self1, w2)
           | Inr v2 \<Rightarrow>
          (let self2 = self1\<lparr>vg_available_space := v2\<rparr> in
           case first_item vg_list ''lv_count'' of
             Inl e \<Rightarrow> (Inl e, self2, w2)
           | Inr v3 \<Rightarrow>
          (let self3 = self2\<lparr>vg_lv_count := v3\<rparr> in
           case first_item vg_list ''uuid'' of
             Inl e \<Rightarrow> (Inl e, self3, w2)
           | Inr v4 \<Rightarrow>
          (let self4 = self3\<lparr>vg_uuid := v4\<rparr> in
           case py_index vg_list 0 of
             Inl e \<Rightarrow> (Inl e, self4, w2)
           | Inr d \<Rightarrow> (Inr d, self4, w2)))))))"

subsection \<open>Construction\<close>

definition vgs_names_call :: exec_call where
  "vgs_names_call = sudo_call (map PyStr [''vgs'', ''--noheadings'', ''-o'', ''name''])"

text \<open>\<open>LVM._vg_exists\<close>.\<close>

definition vg_exists :: "'s executor \<Rightarrow> lvm \<Rightarrow> 's world \<Rightarrow> (exn + bool) \<times> 's world" where
  "vg_exists ex self w =
     (case execute ex vgs_names_call w of
        (Inl e, w') \<Rightarrow> (Inl e, w')
      | (Inr (out, err), w') \<Rightarrow>
          (let volume_groups = py_split out in
           (Inr (if vg_name self \<notin> set volume_groups then False else True), w')))"

definition vgcreate_call :: "string \<Rightarrow> string list \<Rightarrow> exec_call" where
  "vgcreate_call vg pvl = sudo_call [PyStr ''vgcreate'', PyStr vg, PyStr (py_join '','' pvl)]"

text \<open>\<open>LVM._create_vg\<close>.\<close>

definition create_vg :: "'s executor \<Rightarrow> lvm \<Rightarrow> string list \<Rightarrow> 's world \<Rightarrow> (exn + unit) \<times> 's world" where
  "create_vg ex self pvl w =
     (case execute ex (vgcreate_call (vg_name self) pvl) w of
        (Inl e, w') \<Rightarrow> (Inl e, w')
      | (Inr r, w') \<Rightarrow> (Inr (), w'))"

text \<open>The object as the first seven assignments of \<open>__init__\<close> leave it.\<close>

definition new_lvm :: "string \<Rightarrow> lvm" where
  "new_lvm vg =
     \<lparr>vg_name = vg, pv_list = [], lv_list = [], vg_size = PyInt 0,
      vg_available_space = PyInt 0, vg_lv_count = PyInt 0, vg_uuid = PyNone\<rparr>"

text \<open>
  The first block of \<open>__init__\<close>: \<open>if create_vg and physical_volumes is not None\<close>.
  An exception of \<open>_create_vg\<close> is logged and raised again.
\<close>

definition init_create :: "'s executor \<Rightarrow> lvm \<Rightarrow> bool \<Rightarrow> string list option \<Rightarrow> 's world \<Rightarrow> (exn + lvm) \<times> 's world" where
  "init_create ex self create physical_volumes w =
     (case physical_volumes of
        None \<Rightarrow> (Inr self, w)
      | Some pvl \<Rightarrow>
          if create
          then (let self1 = self\<lparr>pv_list := map Inl pvl\<rparr> in
                case create_vg ex self1 pvl w of
                  (Inl e, w') \<Rightarrow>
                    (Inl e, log_error ''Failed initialization create Volume Group.'' w')
                | (Inr u, w') \<Rightarrow> (Inr self1, w'))
          else (Inr self, w))"

text \<open>
  \<open>LVM.__init__\<close>: the object, or the exception that ends the construction (no object
  exists then).
\<close>

definition init :: "'s executor \<Rightarrow> string \<Rightarrow> bool \<Rightarrow> string list option \<Rightarrow> 's world \<Rightarrow> (exn + lvm) \<times> 's world" where
  "init ex vg create physical_volumes w =
     (case init_create ex (new_lvm vg) create physical_volumes w of
        (Inl e, w1) \<Rightarrow> (Inl e, w1)
      | (Inr self, w1) \<Rightarrow>
          (case vg_exists ex self w1 of
             (Inl e, w2) \<Rightarrow> (Inl e, w2)
           | (Inr exists, w2) \<Rightarrow>
               if exists = False
               then (Inl (VolumeGroupNotFound vg),
                     log_error (''Unable to locate Volume Group '' @ vg) w2)
               else (Inr self, w2)))"

subsection \<open>Commands run for their effect\<close>

text \<open>A call whose output is dropped: the method then returns \<open>None\<close>.\<close>

definition execute_discard :: "'s executor \<Rightarrow> exec_call \<Rightarrow> lvm \<Rightarrow> 's world \<Rightarrow> (exn + pyval) \<times> lvm \<times> 's world" where
  "execute_discard ex c self w =
     (case execute ex c w of
        (Inl e, w') \<Rightarrow> (Inl e, self, w')
      | (Inr r, w') \<Rightarrow> (Inr PyNone, self, w'))"

subsection \<open>Creating a volume\<close>

text \<open>
  The region size of a mirrored volume is computed with Python floats, that is IEEE
  doubles. A double is a real number; what the operations return is a parameter, since
  it depends on the rounding of the machine and of the C library: the conversion of an
  integer (\<open>None\<close> when Python raises \<open>OverflowError\<close>), the division, \<open>math.log\<close>,
  and \<open>2 ** x\<close> (\<open>None\<close> on overflow). \<open>math.ceil\<close> and \<open>int\<close> are exact on the
  values that occur here and are not parameters.
\<close>

record float_ops =
  float_of_int :: "int \<Rightarrow> real option"
  fdiv :: "real \<Rightarrow> real \<Rightarrow> real"
  flog :: "real \<Rightarrow> real"
  fpow2 :: "real \<Rightarrow> real option"

text \<open>\<open>terras = int(size[:-1]) / 1024.0\<close>, for the integer already parsed.\<close>

definition terras_of :: "float_ops \<Rightarrow> int \<Rightarrow> exn + real" where
  "terras_of fp n =
     (case float_of_int fp n of
        None \<Rightarrow> Inl OverflowError
      | Some x \<Rightarrow> Inr (fdiv fp x 1024))"

text \<open>\<open>int(2 ** math.ceil(math.log(terras) / math.log(2)))\<close>.\<close>

definition next_power :: "float_ops \<Rightarrow> real \<Rightarrow> exn + int" where
  "next_power fp terras =
     (let l1 = flog fp terras; l2 = flog fp 2 in
      if l2 = 0 then Inl ZeroDivisionError
      else (case fpow2 fp (real_of_int \<lceil>fdiv fp l1 l2\<rceil>) of
              None \<Rightarrow> Inl OverflowError
            | Some p \<Rightarrow> Inr \<lfloor>p\<rfloor>))"

text \<open>
  The body of \<open>if mirror_count > 0\<close> after the \<open>-m\<close> arguments: the region size to pass
  with \<open>-R\<close>, or \<open>None\<close> when the size is below 1.5 terabytes and no flag is added.
\<close>

definition region_size :: "float_ops \<Rightarrow> string \<Rightarrow> exn + int option" where
  "region_size fp sz =
     bind_exn (py_int (butlast sz)) (\<lambda>n.
     bind_exn (terras_of fp n) (\<lambda>terras.
       if terras \<ge> 1.5
       then bind_exn (next_power fp terras) (\<lambda>rsize. Inr (Some rsize))
       else Inr None))"

text \<open>
  \<open>LVM.create_volume\<close>; \<open>kind\<close> is the parameter \<open>type\<close>. The mirror count goes into
  the command line as the integer it is. The output is written with \<open>LOG.debug\<close>,
  which is not an error message and leaves the world as it is.
\<close>

definition create_volume :: "float_ops \<Rightarrow> 's executor \<Rightarrow> lvm \<Rightarrow> string \<Rightarrow> string \<Rightarrow> string \<Rightarrow> int \<Rightarrow> 's world \<Rightarrow> (exn + pyval) \<times> lvm \<times> 's world" where
  "create_volume fp ex self nm sz kind mirror_count w =
     (let cmd = map PyStr [''lvcreate'', ''-n'', nm, vg_name self]
                @ (if kind = ''thin'' then map PyStr [''-T'', ''-V'', sz]
                   else map PyStr [''-L'', sz]) in
      if mirror_count > 0
      then (let cmd1 = cmd @ [PyStr ''-m'', PyInt mirror_count, PyStr ''--nosync''] in
            case region_size fp sz of
              Inl e \<Rightarrow> (Inl e, self, w)
            | Inr None \<Rightarrow> execute_discard ex (sudo_call cmd1) self w
            | Inr (Some rsize) \<Rightarrow>
                execute_discard ex (sudo_call (cmd1 @ [PyStr ''-R'', PyStr (py_str rsize)])) self w)
      else execute_discard ex (sudo_call cmd) self w)"

subsection \<open>Snapshots, deletion and revert\<close>

text \<open>
  \<open>LVM.create_lv_snapshot\<close>; \<open>kind\<close> is the parameter \<open>type\<close>. A source volume that
  \<open>get_volume\<close> does not find is logged and answered with \<open>False\<close>.
\<close>

definition create_lv_snapshot :: "'s executor \<Rightarrow> lvm \<Rightarrow> string \<Rightarrow> string \<Rightarrow> string \<Rightarrow> 's world \<Rightarrow> (exn + pyval) \<times> lvm \<times> 's world" where
  "create_lv_snapshot ex self nm source_lv_name kind w =
     (case get_volume ex self source_lv_name w of
        (Inl e, self', w') \<Rightarrow> (Inl e, self', w')
      | (Inr None, self', w') \<Rightarrow> (Inr (PyBool False), self', log_error ''FAIL'' w')
      | (Inr (Some source_lvref), self', w') \<Rightarrow>
          (let cmd = map PyStr [''lvcreate'', ''--name'', nm, ''--snapshot'',
                                vg_name self' @ ''/'' @ source_lv_name] in
           if kind \<noteq> ''thin''
           then (case getitem source_lvref ''size'' of
                   Inl e \<Rightarrow> (Inl e, self', w')
                 | Inr sz \<Rightarrow> execute_discard ex (sudo_call (cmd @ [PyStr ''-L'', sz])) self' w')
           else execute_discard ex (sudo_call cmd) self' w'))"

text \<open>\<open>LVM.delete\<close>.\<close>

definition delete :: "'s executor \<Rightarrow> lvm \<Rightarrow> string \<Rightarrow> 's world \<Rightarrow> (exn + pyval) \<times> lvm \<times> 's world" where
  "delete ex self nm w =
     execute_discard ex
       (sudo_call (map PyStr [''lvremove'', ''-f'', vg_name self @ ''/'' @ nm])) self w"

definition merge_call :: "pyval \<Rightarrow> exec_call" where
  "merge_call snap = sudo_call [PyStr ''lvconvert'', PyStr ''--merge'', snap]"

text \<open>\<open>LVM.revert\<close>.\<close>

definition revert :: "'s executor \<Rightarrow> lvm \<Rightarrow> string \<Rightarrow> 's world \<Rightarrow> (exn + pyval) \<times> lvm \<times> 's world" where
  "revert ex self snapshot_name w =
     execute_discard ex (merge_call (PyStr snapshot_name)) self w"

section \<open>The function-style helpers (cinder/blk_local/lv_utils.py)\<close>

text \<open>
  These helpers call the executor with \<open>run_as_root=True\<close> only. The translation
  function \<open>_\<close> they use is taken to be installed as a builtin, as the package does at
  import, and to return its argument.
\<close>

definition root_call :: "pyval list \<Rightarrow> exec_call" where
  "root_call args = \<lparr>argv = args, root_helper = None, run_as_root = True\<rparr>"

text \<open>\<open>needle in hay\<close> on strings: substring containment.\<close>

fun py_contains :: "string \<Rightarrow> string \<Rightarrow> bool" where
  "py_contains needle [] = (needle = [])"
| "py_contains needle (c # cs) =
     (take (length needle) (c # cs) = needle \<or> py_contains needle cs)"

text \<open>
  The loop \<open>for line in out\<close> of \<open>get\<close>. \<open>out\<close> is a string, so \<open>line\<close> is each of its
  characters in turn. The result is the group name the loop leaves in \<open>vg_name\<close>
  (\<open>None\<close> when it ends without one), or the bare \<open>raise\<close> of its \<open>else\<close> branch.
\<close>

fun get_scan :: "string \<Rightarrow> string \<Rightarrow> 's world \<Rightarrow> (exn + string option) \<times> 's world" where
  "get_scan nm [] w = (Inr None, w)"
| "get_scan nm (c # cs) w =
     (let line = [c] in
      if py_contains nm line
      then (let parsed_line = py_split line in
            if length parsed_line > 1
            then (Inr (Some (parsed_line ! 1)), w)
            else (Inl BareRaise, log_error (''Found LV but failed parsing: '' @ line) w))
      else get_scan nm cs w)"

text \<open>
  \<open>re.split(r'\s{2,}', out)\<close>: the pieces between the maximal runs of two or more
  whitespace characters; a run at either end gives an empty piece there. The flag says
  that the scan is inside such a run.
\<close>

fun re_split_acc :: "string \<Rightarrow> bool \<Rightarrow> string \<Rightarrow> string list" where
  "re_split_acc cur in_sep [] = [cur]"
| "re_split_acc cur True (c # cs) =
     (if isspace c then re_split_acc [] True cs else re_split_acc [c] False cs)"
| "re_split_acc cur False (c # cs) =
     (if isspace c \<and> (case cs of [] \<Rightarrow> False | d # ds \<Rightarrow> isspace d)
      then cur # re_split_acc [] True cs
      else re_split_acc (cur @ [c]) False cs)"

definition re_split_spaces :: "string \<Rightarrow> string list" where
  "re_split_spaces s = re_split_acc [] False s"

text \<open>\<open>del xs[-1]\<close> and \<open>del xs[0]\<close>: \<open>IndexError\<close> on an empty list.\<close>

definition del_last :: "'a list \<Rightarrow> exn + 'a list" where
  "del_last xs = (if xs = [] then Inl IndexError else Inr (butlast xs))"

definition del_first :: "'a list \<Rightarrow> exn + 'a list" where
  "del_first xs = (case xs of [] \<Rightarrow> Inl IndexError | x # rest \<Rightarrow> Inr rest)"

text \<open>
  \<open>map(None, *[iter(xs)] * 2)\<close> of Python 2: the elements two at a time, the last
  pair padded with \<open>None\<close> when the length is odd.
\<close>

fun pairs_pad :: "string list \<Rightarrow> (string \<times> pyval) list" where
  "pairs_pad [] = []"
| "pairs_pad [k] = [(k, PyNone)]"
| "pairs_pad (k # v # rest) = (k, PyStr v) # pairs_pad rest"

text \<open>\<open>dict(pairs)\<close>: a later pair replaces an earlier one with the same key.\<close>

definition dict_of_pairs :: "(string \<times> pyval) list \<Rightarrow> pydict" where
  "dict_of_pairs ps = foldl (\<lambda>d kv. AList.update (fst kv) (snd kv) d) [] ps"

definition lvdisplay_dict :: "string \<Rightarrow> exn + pydict" where
  "lvdisplay_dict out =
     bind_exn (del_last (re_split_spaces out)) (\<lambda>fo1.
     bind_exn (del_first fo1) (\<lambda>fo2.
     bind_exn (del_first fo2) (\<lambda>fo3.
       Inr (dict_of_pairs (pairs_pad fo3)))))"

definition lvs_names_call :: exec_call where
  "lvs_names_call = root_call (map PyStr [''lvs'', ''--noheadings'', ''-o'', ''name,vg_name''])"

definition lvdisplay_call :: "string \<Rightarrow> string \<Rightarrow> exec_call" where
  "lvdisplay_call vg nm = root_call (map PyStr [''lvdisplay'', vg @ ''/'' @ nm])"

text \<open>The first block of \<open>get\<close>: the group name after \<open>if vg_name is None: ...\<close>.\<close>

definition get_find_vg :: "'s executor \<Rightarrow> string \<Rightarrow> string option \<Rightarrow> 's world \<Rightarrow> (exn + string option) \<times> 's world" where
  "get_find_vg ex nm vg w =
     (case vg of
        Some v \<Rightarrow> (Inr (Some v), w)
      | None \<Rightarrow>
          (case execute ex lvs_names_call w of
             (Inl e, w1) \<Rightarrow> (Inl e, w1)
           | (Inr (out, err), w1) \<Rightarrow> get_scan nm out w1))"

text \<open>\<open>lv_utils.get\<close>.\<close>

definition lv_utils_get :: "'s executor \<Rightarrow> string \<Rightarrow> string option \<Rightarrow> 's world \<Rightarrow> (exn + pydict) \<times> 's world" where
  "lv_utils_get ex nm vg w =
     (case get_find_vg ex nm vg w of
        (Inl e, w1) \<Rightarrow> (Inl e, w1)
      | (Inr None, w1) \<Rightarrow> (Inl BareRaise, log_error ''Volume Group not found'' w1)
      | (Inr (Some v), w1) \<Rightarrow>
          (case execute ex (lvdisplay_call v nm) w1 of
             (Inl e, w2) \<Rightarrow> (Inl e, w2)
           | (Inr (out, err), w2) \<Rightarrow> (lvdisplay_dict out, w2)))"

definition lv_utils_merge_call :: "pyval \<Rightarrow> exec_call" where
  "lv_utils_merge_call snap = root_call [PyStr ''lvconvert'', PyStr ''--merge'', snap]"

text \<open>\<open>lv_utils.revert\<close>.\<close>

definition lv_utils_revert :: "'s executor \<Rightarrow> string \<Rightarrow> string option \<Rightarrow> 's world \<Rightarrow> (exn + pyval) \<times> 's world" where
  "lv_utils_revert ex snapshot_name vg w =
     (case lv_utils_get ex snapshot_name vg w of
        (Inl e, w1) \<Rightarrow> (Inl e, w1)
      | (Inr lv_ref, w1) \<Rightarrow>
          (case getitem lv_ref ''LV Name'' of
             Inl e \<Rightarrow> (Inl e, w1)
           | Inr v \<Rightarrow>
               (case execute ex (lv_utils_merge_call v) w1 of
                  (Inl e, w2) \<Rightarrow> (Inl e, w2)
                | (Inr r, w2) \<Rightarrow> (Inr PyNone, w2))))"

text \<open>
  \<open>lv_utils.create\<close>. Both branches of its first \<open>if\<close> call
  \<open>vol_utils.int_to_string(size)\<close>, and the module \<open>cinder.volume.utils\<close> defines no
  such name: the attribute lookup raises before the command line is complete, so for
  every argument the function raises and issues no command.
\<close>

definition lv_utils_create :: "'s executor \<Rightarrow> string \<Rightarrow> string \<Rightarrow> string \<Rightarrow> int \<Rightarrow> string \<Rightarrow> 's world \<Rightarrow> (exn + pydict) \<times> 's world" where
  "lv_utils_create ex nm sz vg mirror_count kind w = (Inl (AttributeError ''int_to_string''), w)"

text \<open>A call is a merge when its command line starts with \<open>lvconvert --merge\<close>.\<close>

definition is_merge :: "exec_call \<Rightarrow> bool" where
  "is_merge c = (take 2 (argv c) = [PyStr ''lvconvert'', PyStr ''--merge''])"

section \<open>Remote execution with retry (cinder/volume/utils.py)\<close>

text \<open>
  What \<open>_run_ssh\<close> calls and does not define is a parameter: building the session pool,
  checking a session out of it (\<open>self.sshpool.item()\<close>), one \<open>utils.ssh_execute\<close> on
  the session, and one draw of \<open>random.randint(20, 500)\<close>. Each acts on a state of the
  remote side; an execution gives \<open>(stdout, stderr)\<close> or the exception it raises,
  whatever its class.
\<close>

record 's remote =
  new_pool :: "'s \<Rightarrow> exn option \<times> 's"
  pool_item :: "'s \<Rightarrow> exn option \<times> 's"
  ssh_execute :: "string \<Rightarrow> pyval \<Rightarrow> 's \<Rightarrow> (exn + string \<times> string) \<times> 's"
  randint :: "'s \<Rightarrow> int \<times> 's"

text \<open>
  What a run leaves behind, oldest first: each execution attempt, each exception and
  message logged, and each sleep with the number drawn (the sleep lasts that many
  hundredths of a second).
\<close>

datatype ssh_event =
    Executed string pyval
  | Logged_exception exn
  | Logged_error string
  | Slept int

record 's ssh_world =
  rstate :: 's
  sshpool :: bool
  events :: "ssh_event list"

definition do_ssh_execute :: "'s remote \<Rightarrow> string \<Rightarrow> pyval \<Rightarrow> 's ssh_world \<Rightarrow> (exn + string \<times> string) \<times> 's ssh_world" where
  "do_ssh_execute t command check_exit_code w =
     (case ssh_execute t command check_exit_code (rstate w) of
        (r, s') \<Rightarrow> (r, w\<lparr>rstate := s', events := events w @ [Executed command check_exit_code]\<rparr>))"

text \<open>The handler of the inner \<open>try\<close>: log the exception, draw, sleep.\<close>

definition log_and_sleep :: "'s remote \<Rightarrow> exn \<Rightarrow> 's ssh_world \<Rightarrow> 's ssh_world" where
  "log_and_sleep t e w =
     (case randint t (rstate w) of
        (r, s') \<Rightarrow> w\<lparr>rstate := s', events := events w @ [Logged_exception e, Slept r]\<rparr>)"

text \<open>
  The entries of \<open>locals()\<close> that are plain values, at the \<open>raise\<close> after the loop
  (\<open>self\<close>, the session and the last exception are objects and are left out).
\<close>

definition ssh_locals :: "string \<Rightarrow> pyval \<Rightarrow> int \<Rightarrow> int \<Rightarrow> pydict" where
  "ssh_locals command check_exit_code attempts total_attempts =
     [(''command'', PyStr command), (''check_exit_code'', check_exit_code),
      (''attempts'', PyInt attempts), (''total_attempts'', PyInt total_attempts)]"

definition ssh_failed_template :: string where
  "ssh_failed_template =
     ''SSH Command failed after '' @ [CHR 0x27] @ ''%(total_attempts)r'' @ [CHR 0x27]
       @ '' attempts: '' @ [CHR 0x27] @ ''%(command)s'' @ [CHR 0x27]"

text \<open>
  The \<open>while attempts > 0\<close> loop with the \<open>raise\<close> that follows it. Every exception of
  an attempt is caught by \<open>except Exception\<close>.
\<close>

function ssh_loop :: "'s remote \<Rightarrow> string \<Rightarrow> pyval \<Rightarrow> int \<Rightarrow> int \<Rightarrow> 's ssh_world \<Rightarrow> (exn + string \<times> string) \<times> 's ssh_world" where
  "ssh_loop t command check_exit_code total_attempts attempts w =
     (if attempts > 0
      then (case do_ssh_execute t command check_exit_code w of
              (Inr r, w1) \<Rightarrow> (Inr r, w1)
            | (Inl e, w1) \<Rightarrow>
                ssh_loop t command check_exit_code total_attempts (attempts - 1)
                  (log_and_sleep t e w1))
      else (Inl (SSHException ssh_failed_template
                   (ssh_locals command check_exit_code attempts total_attempts)), w))"
  by pat_completeness auto
termination
  by (relation "measure (\<lambda>(t, command, check_exit_code, total_attempts, attempts, w). nat attempts)") auto

text \<open>
  \<open>_run_ssh\<close>. The pool is built when the object has none (outside the \<open>try\<close>); any
  exception inside the \<open>try\<close> is logged with the command and raised again.
\<close>

definition run_ssh :: "'s remote \<Rightarrow> string \<Rightarrow> pyval \<Rightarrow> int \<Rightarrow> 's ssh_world \<Rightarrow> (exn + string \<times> string) \<times> 's ssh_world" where
  "run_ssh t command check_exit_code attempts w =
     (case (if \<not> sshpool w
            then (case new_pool t (rstate w) of
                    (Some e, s) \<Rightarrow> (Some e, w\<lparr>rstate := s\<rparr>)
                  | (None, s) \<Rightarrow> (None, w\<lparr>rstate := s, sshpool := True\<rparr>))
            else (None, w)) of
        (Some e, w0) \<Rightarrow> (Inl e, w0)
      | (None, w0) \<Rightarrow>
          (let total_attempts = attempts in
           case (case pool_item t (rstate w0) of
                   (Some e, s) \<Rightarrow> (Inl e, w0\<lparr>rstate := s\<rparr>)
                 | (None, s) \<Rightarrow>
                     ssh_loop t command check_exit_code total_attempts attempts
                       (w0\<lparr>rstate := s\<rparr>)) of
             (Inl e, w1) \<Rightarrow>
               (Inl e, w1\<lparr>events := events w1
                              @ [Logged_error (''Error running ssh command: '' @ command)]\<rparr>)
           | (Inr r, w1) \<Rightarrow> (Inr r, w1)))"

text \<open>The number of execution attempts in a list of events.\<close>

definition attempts_made :: "ssh_event list \<Rightarrow> nat" where
  "attempts_made evs = length (filter (\<lambda>ev. case ev of Executed c k \<Rightarrow> True | _ \<Rightarrow> False) evs)"

text \<open>
  What one failed attempt leaves in the events: the execution, the log of the exception
  and the sleep. The pair is the exception and the number drawn for the sleep.
\<close>

definition failed_attempt :: "string \<Rightarrow> pyval \<Rightarrow> exn \<times> int \<Rightarrow> ssh_event list" where
  "failed_attempt c k p = [Executed c k, Logged_exception (fst p), Slept (snd p)]"

text \<open>
  The pair comes from the remote side: some execution of the command raised the
  exception, and the number is the draw made in the state that execution left.
\<close>

definition raised_by :: "'s remote \<Rightarrow> string \<Rightarrow> pyval \<Rightarrow> exn \<times> int \<Rightarrow> bool" where
  "raised_by t c k p =
     (\<exists>s s1. ssh_execute t c k s = (Inl (fst p), s1) \<and> snd p = fst (randint t s1))"

section \<open>Predicates on calls and example systems\<close>

text \<open>A call creates a volume group when its command line starts with \<open>vgcreate\<close>.\<close>

definition is_vgcreate :: "exec_call \<Rightarrow> bool" where
  "is_vgcreate c = (take 1 (argv c) = [PyStr ''vgcreate''])"

text \<open>
  The dictionary the loop body of \<open>get_all_physical_volumes\<close> builds from an entry that
  has at least four fields: the first four, in order.
\<close>

definition pv_fields :: "string \<Rightarrow> pydict" where
  "pv_fields pv =
     (let fields = split_sep CHR '':'' pv in
      [(''vg'', PyStr (fields ! 0)), (''name'', PyStr (fields ! 1)),
       (''size'', PyStr (fields ! 2)), (''available'', PyStr (fields ! 3))])"

text \<open>A world in which nothing has been issued or logged yet.\<close>

definition fresh_world :: "'s \<Rightarrow> 's world" where
  "fresh_world s = \<lparr>sys = s, issued = [], logged = []\<rparr>"

text \<open>
  A host with the groups \<open>vg0\<close> and \<open>vg1\<close>; \<open>vg0\<close> has one physical volume and the
  logical volumes \<open>lv10\<close> and \<open>lv1\<close>. It accepts every \<open>lvcreate\<close> and answers any other
  command with exit code 5, as the tools do for an object that does not exist.
\<close>

definition lvm_host :: "unit executor" where
  "lvm_host c s =
     (if c = vgs_names_call
      then Inr (''  vg0'' @ [CHR 0x0A] @ ''  vg1'' @ [CHR 0x0A], [])
      else if c = lvs_call (Some ''vg0'')
      then Inr (''  vg0 lv10 2.00g'' @ [CHR 0x0A] @ ''  vg0 lv1 1.00g'' @ [CHR 0x0A], [])
      else if c = pvs_call (Some ''vg0'')
      then Inr (''  vg0:/dev/sda1:10.00g:5.00g'' @ [CHR 0x0A], [])
      else if c = vgs_call (Some ''vg0'')
      then Inr (''  vg0:10.00g:5.00g:2:Hx3C-9kq'' @ [CHR 0x0A], [])
      else if c = lvs_names_call
      then Inr (''  lv10 vg0'' @ [CHR 0x0A] @ ''  lv1 vg0'' @ [CHR 0x0A], [])
      else if take 1 (argv c) = [PyStr ''lvcreate'']
      then Inr ([], [])
      else Inl (ProcessExecutionError 5 [] ''not found''), s)"

text \<open>
  A host whose inventory output has lines of the wrong length: an LV line without its
  size, a PV line with a fifth field, and (for \<open>vg1\<close>) a PV line with three fields.
\<close>

definition ragged_host :: "unit executor" where
  "ragged_host c s =
     (if c = lvs_call None
      then Inr (''  vg0 lv1'' @ [CHR 0x0A] @ ''  vg0 lv2 2.00g'' @ [CHR 0x0A], [])
      else if c = pvs_call None
      then Inr (''  vg0:/dev/sda1:10.00g:5.00g:extra'' @ [CHR 0x0A], [])
      else if c = pvs_call (Some ''vg1'')
      then Inr (''  vg1:/dev/sdb1:20.00g'' @ [CHR 0x0A], [])
      else Inl (ProcessExecutionError 5 [] ''not found''), s)"

text \<open>
  A system whose state is the list of its volume groups: \<open>vgcreate\<close> adds a group that
  is not there yet, and the name query prints one group per line.
\<close>

definition vg_store :: "string list executor" where
  "vg_store c s =
     (if c = vgs_names_call
      then (Inr (concat (map (\<lambda>v. ''  '' @ v @ [CHR 0x0A]) s), []), s)
      else if take 1 (argv c) = [PyStr ''vgcreate'']
      then (case argv c ! 1 of
              PyStr v \<Rightarrow>
                if v \<in> set s then (Inl (ProcessExecutionError 5 [] ''already exists''), s)
                else (Inr ([], []), s @ [v])
            | _ \<Rightarrow> (Inl (ProcessExecutionError 3 [] ''usage''), s))
      else (Inl (ProcessExecutionError 5 [] ''not found''), s))"

text \<open>The object's world before the first remote command: no pool, no events.\<close>

definition ssh_start :: "'s \<Rightarrow> 's ssh_world" where
  "ssh_start s = \<lparr>rstate = s, sshpool = False, events = []\<rparr>"

text \<open>A remote side on which every execution fails in the transport.\<close>

definition dead_link :: "unit remote" where
  "dead_link =
     \<lparr>new_pool = (\<lambda>s. (None, s)), pool_item = (\<lambda>s. (None, s)),
      ssh_execute = (\<lambda>c k s. (Inl (SocketError ''connection refused''), s)),
      randint = (\<lambda>s. (20, s))\<rparr>"

text \<open>
  A remote side that delivers every command; the state counts the executions. The
  first one exits with code 1, the later ones succeed.
\<close>

definition exit1_then_ok :: "nat remote" where
  "exit1_then_ok =
     \<lparr>new_pool = (\<lambda>s. (None, s)), pool_item = (\<lambda>s. (None, s)),
      ssh_execute = (\<lambda>c k s.
        (if s = 0 then Inl (ProcessExecutionError 1 [] ''Volume group not found'')
         else Inr (''done'', []), Suc s)),
      randint = (\<lambda>s. (20, s))\<rparr>"

text \<open>Float operations without rounding: what the arithmetic would give on the reals.\<close>

definition exact_floats :: float_ops where
  "exact_floats =
     \<lparr>float_of_int = (\<lambda>n. Some (real_of_int n)), fdiv = (\<lambda>x y. x / y), flog = ln,
      fpow2 = (\<lambda>x. Some (2 powr x))\<rparr>"

text \<open>
  Float operations with the three values that CPython returns on x86-64 with the GNU C
  library: \<open>math.log(2.0 ** 29)\<close> is the double \<open>20.101268236238415\<close>, \<open>math.log(2)\<close>
  is the double \<open>0.6931471805599453\<close>, and their quotient rounds to
  \<open>29.000000000000004\<close>, one unit in the last place above 29. The doubles are written
  as the fractions they are. Everywhere else the operations are the exact ones.
\<close>

definition observed_floats :: float_ops where
  "observed_floats =
     \<lparr>float_of_int = (\<lambda>n. Some (real_of_int n)),
      fdiv = (\<lambda>x y. if x = 5658004008649857 / 2 ^ 48 \<and> y = 6243314768165359 / 2 ^ 53
                      then 29 + 1 / 2 ^ 48 else x / y),
      flog = (\<lambda>x. if x = 2 ^ 29 then 5658004008649857 / 2 ^ 48
                    else if x = 2 then 6243314768165359 / 2 ^ 53 else ln x),
      fpow2 = (\<lambda>x. Some (2 powr x))\<rparr>"

section \<open>Evaluation and helper lemmas\<close>

declare ssh_loop.simps [simp del]

declare digits_of.simps [simp del]

lemmas call_defs =
  vgs_names_call_def lvs_call_def pvs_call_def vgs_call_def lvs_names_call_def
  lvdisplay_call_def merge_call_def lv_utils_merge_call_def vgcreate_call_def
  sudo_call_def root_call_def

lemmas string_defs = py_split_def split_sep_def isspace_def

lemma execute_eq:
  "execute ex c w =
     (fst (ex c (sys w)), w\<lparr>sys := snd (ex c (sys w)), issued := issued w @ [c]\<rparr>)"
  by (simp add: execute_def split: prod.splits)

lemma get_volume_loop_find:
  "get_volume_loop (map lv_dict ts) nm =
     Inr (find (\<lambda>d. map_of d ''name'' = Some (PyStr nm)) (map lv_dict ts))"
  by (induction ts) (auto simp: lv_dict_def getitem_def)

lemma get_all_volumes_ok:
  assumes "ex (lvs_call vg) (sys w) = (Inr (out, err), s')"
  shows "get_all_volumes ex vg w =
     (Inr (map lv_dict (izip3 (py_split out))),
      w\<lparr>sys := s', issued := issued w @ [lvs_call vg]\<rparr>)"
  using assms by (simp add: get_all_volumes_def execute_def)

lemma get_volume_ok:
  assumes "ex (lvs_call (Some (vg_name self))) (sys w) = (Inr (out, err), s')"
  shows "get_volume ex self nm w =
           (Inr (find (\<lambda>d. map_of d ''name'' = Some (PyStr nm))
                   (map lv_dict (izip3 (py_split out)))),
            self\<lparr>lv_list := map lv_dict (izip3 (py_split out))\<rparr>,
            w\<lparr>sys := s', issued := issued w @ [lvs_call (Some (vg_name self))]\<rparr>)"
  using assms
  by (simp add: get_volume_def get_volumes_def get_all_volumes_ok get_volume_loop_find)

lemma lvm_host_lvs:
  "lvm_host (lvs_call (Some (vg_name (new_lvm ''vg0'')))) (sys (fresh_world ())) =
     (Inr (''  vg0 lv10 2.00g'' @ [CHR 0x0A] @ ''  vg0 lv1 1.00g'' @ [CHR 0x0A], []), ())"
  by (simp add: lvm_host_def new_lvm_def call_defs)

section \<open>Lookup of one logical volume\<close>

text \<open>
  C9. \<open>get_volume(name)\<close> issues the LV inventory query for the bound group, stores
  the parsed list in \<open>lv_list\<close>, and returns the first record whose \<open>name\<close> field is
  equal to the requested name; when no record has that name it returns \<open>None\<close> and
  raises nothing. The hypothesis says that the inventory command itself returned.
\<close>

theorem get_volume_exact_lookup:
  assumes "ex (lvs_call (Some (vg_name self))) (sys w) = (Inr (out, err), s')"
  shows "get_volume ex self nm w =
           (Inr (find (\<lambda>d. map_of d ''name'' = Some (PyStr nm))
                   (map lv_dict (izip3 (py_split out)))),
            self\<lparr>lv_list := map lv_dict (izip3 (py_split out))\<rparr>,
            w\<lparr>sys := s', issued := issued w @ [lvs_call (Some (vg_name self))]\<rparr>)
      \<and> (\<forall>d. fst (get_volume ex self nm w) = Inr (Some d) \<longrightarrow>
             d \<in> set (map lv_dict (izip3 (py_split out)))
             \<and> map_of d ''name'' = Some (PyStr nm))
      \<and> ((\<forall>d \<in> set (map lv_dict (izip3 (py_split out))).
              map_of d ''name'' \<noteq> Some (PyStr nm)) \<longrightarrow>
             fst (get_volume ex self nm w) = Inr None)"
proof -
  let ?lvs = "map lv_dict (izip3 (py_split out))"
  let ?P = "\<lambda>d. map_of d ''name'' = Some (PyStr nm)"
  have eq: "get_volume ex self nm w =
           (Inr (find ?P ?lvs), self\<lparr>lv_list := ?lvs\<rparr>,
            w\<lparr>sys := s', issued := issued w @ [lvs_call (Some (vg_name self))]\<rparr>)"
    using assms by (rule get_volume_ok)
  have some: "\<forall>d. find ?P ?lvs = Some d \<longrightarrow> d \<in> set ?lvs \<and> ?P d"
    by (auto simp: find_Some_iff)
  have none: "(\<forall>d \<in> set ?lvs. \<not> ?P d) \<longrightarrow> find ?P ?lvs = None"
    by (simp add: find_None_iff)
  have fst_eq: "fst (get_volume ex self nm w) = Inr (find ?P ?lvs)"
    by (simp only: eq fst_conv)
  show ?thesis
  proof (intro conjI)
    show "get_volume ex self nm w =
           (Inr (find ?P ?lvs), self\<lparr>lv_list := ?lvs\<rparr>,
            w\<lparr>sys := s', issued := issued w @ [lvs_call (Some (vg_name self))]\<rparr>)"
      by (rule eq)
    show "\<forall>d. fst (get_volume ex self nm w) = Inr (Some d) \<longrightarrow> d \<in> set ?lvs \<and> ?P d"
      using some by (simp only: fst_eq sum.inject)
    show "(\<forall>d \<in> set ?lvs. map_of d ''name'' \<noteq> Some (PyStr nm)) \<longrightarrow>
             fst (get_volume ex self nm w) = Inr None"
      using none by (simp only: fst_eq sum.inject)
  qed
qed

text \<open>
  On the example host the name \<open>lv1\<close> finds the second record although the first one,
  \<open>lv10\<close>, contains it; the name \<open>lv\<close>, a substring of both, finds nothing.
\<close>

theorem get_volume_exact_lookup_witness:
  "fst (get_volume lvm_host (new_lvm ''vg0'') ''lv1'' (fresh_world ())) =
     Inr (Some [(''vg'', PyStr ''vg0''), (''name'', PyStr ''lv1''), (''size'', PyStr ''1.00g'')])
   \<and> fst (get_volume lvm_host (new_lvm ''vg0'') ''lv'' (fresh_world ())) = Inr None"
  using get_volume_exact_lookup
          [of lvm_host "new_lvm ''vg0''" "fresh_world ()" _ _ _ "''lv1''", OF lvm_host_lvs, THEN conjunct1]
        get_volume_exact_lookup
          [of lvm_host "new_lvm ''vg0''" "fresh_world ()" _ _ _ "''lv''", OF lvm_host_lvs, THEN conjunct1]
  by (simp add: string_defs lv_dict_def)

section \<open>Construction of the LVM object\<close>

lemma init_create_vg_name:
  "init_create ex self create pvs w = (Inr self1, w1) \<Longrightarrow> vg_name self1 = vg_name self"
  by (auto simp: init_create_def Let_def split: option.splits if_splits prod.splits sum.splits)

lemma vg_exists_cases:
  "vg_exists ex self w1 =
     (case execute ex vgs_names_call w1 of
        (Inl e, w2) \<Rightarrow> (Inl e, w2)
      | (Inr (out, err), w2) \<Rightarrow> (Inr (vg_name self \<in> set (py_split out)), w2))"
  by (auto simp: vg_exists_def Let_def split: prod.splits sum.splits)

text \<open>
  C7. Whatever the arguments, a construction that yields an object has run the VG name
  query (after the optional creation step) and found \<open>vg_name\<close> in its output; and when
  the query returns a list without the name, the construction ends with
  \<open>VolumeGroupNotFound\<close> carrying the name, so no object exists.
\<close>

theorem init_verifies_vg:
  "(\<forall>self w'. init ex vg create pvs w = (Inr self, w') \<longrightarrow>
       vg_name self = vg \<and>
       (\<exists>out err. execute ex vgs_names_call (snd (init_create ex (new_lvm vg) create pvs w))
                     = (Inr (out, err), w')
                  \<and> vg \<in> set (py_split out)))
   \<and> (\<forall>self1 w1 out err w2.
         init_create ex (new_lvm vg) create pvs w = (Inr self1, w1) \<and>
         execute ex vgs_names_call w1 = (Inr (out, err), w2) \<and> vg \<notin> set (py_split out) \<longrightarrow>
         init ex vg create pvs w =
           (Inl (VolumeGroupNotFound vg), log_error (''Unable to locate Volume Group '' @ vg) w2))"
proof (intro conjI allI impI)
  fix self w'
  assume ok: "init ex vg create pvs w = (Inr self, w')"
  obtain r w1 where c: "init_create ex (new_lvm vg) create pvs w = (r, w1)"
    by (cases "init_create ex (new_lvm vg) create pvs w")
  from ok c obtain self1 where r: "r = Inr self1"
    by (cases r) (auto simp: init_def)
  have n: "vg_name self1 = vg"
    using init_create_vg_name [of ex "new_lvm vg" create pvs w self1 w1] c r
    by (simp add: new_lvm_def)
  obtain q w2 where x: "execute ex vgs_names_call w1 = (q, w2)"
    by (cases "execute ex vgs_names_call w1")
  from ok c r x n
  have found: "self = self1 \<and> w' = w2 \<and> (\<exists>out err. q = Inr (out, err) \<and> vg \<in> set (py_split out))"
    by (cases q) (auto simp: init_def vg_exists_cases split: if_splits)
  with n show "vg_name self = vg" by simp
  from found c x
  show "\<exists>out err. execute ex vgs_names_call (snd (init_create ex (new_lvm vg) create pvs w))
                     = (Inr (out, err), w') \<and> vg \<in> set (py_split out)"
    by auto
next
  fix self1 w1 out err w2
  assume h: "init_create ex (new_lvm vg) create pvs w = (Inr self1, w1) \<and>
         execute ex vgs_names_call w1 = (Inr (out, err), w2) \<and> vg \<notin> set (py_split out)"
  then have n: "vg_name self1 = vg"
    using init_create_vg_name [of ex "new_lvm vg" create pvs w self1 w1]
    by (simp add: new_lvm_def)
  from h n show "init ex vg create pvs w =
           (Inl (VolumeGroupNotFound vg), log_error (''Unable to locate Volume Group '' @ vg) w2)"
    by (simp add: init_def vg_exists_cases)
qed

text \<open>
  On a system that has only \<open>vg0\<close>: binding to \<open>vg7\<close> fails with the error that names
  \<open>vg7\<close>; creating \<open>vg7\<close> from two devices first gives the object.
\<close>

theorem init_verifies_vg_witness:
  "init vg_store ''vg7'' False None (fresh_world [''vg0'']) =
     (Inl (VolumeGroupNotFound ''vg7''),
      \<lparr>sys = [''vg0''], issued = [vgs_names_call],
       logged = [''Unable to locate Volume Group vg7'']\<rparr>)
   \<and> fst (init vg_store ''vg7'' True (Some [''/dev/sdb'', ''/dev/sdc'']) (fresh_world [''vg0''])) =
       Inr ((new_lvm ''vg7'')\<lparr>pv_list := [Inl ''/dev/sdb'', Inl ''/dev/sdc'']\<rparr>)"
  using init_verifies_vg [of vg_store "''vg7''" False None "fresh_world [''vg0'']"]
  by (simp add: init_def init_create_def create_vg_def vg_exists_def execute_def vg_store_def
        fresh_world_def new_lvm_def log_error_def call_defs string_defs Let_def)

lemma init_no_pvs:
  "init ex vg create None w =
     (case execute ex vgs_names_call w of
        (Inl e, w2) \<Rightarrow> (Inl e, w2)
      | (Inr (out, err), w2) \<Rightarrow>
          if vg \<in> set (py_split out) then (Inr (new_lvm vg), w2)
          else (Inl (VolumeGroupNotFound vg),
                log_error (''Unable to locate Volume Group '' @ vg) w2))"
  by (auto simp: init_def init_create_def vg_exists_cases new_lvm_def split: prod.splits sum.splits)

lemma init_no_pvs_issued: "issued (snd (init ex vg create None w)) = issued w @ [vgs_names_call]"
  by (auto simp: init_no_pvs execute_eq log_error_def split: prod.splits sum.splits)

text \<open>
  C10. With \<open>create_vg\<close> true and no physical volumes the construction is the same as
  with \<open>create_vg\<close> false: the only command it issues is the VG name query, no
  \<open>vgcreate\<close> among them, an object comes out only if the query lists the name, and a
  query that does not list it ends the construction with \<open>VolumeGroupNotFound\<close>.
\<close>

theorem init_create_flag_without_pvs:
  "init ex vg True None w = init ex vg False None w
   \<and> issued (snd (init ex vg True None w)) = issued w @ [vgs_names_call]
   \<and> filter is_vgcreate (issued (snd (init ex vg True None w))) = filter is_vgcreate (issued w)
   \<and> (\<forall>self w'. init ex vg True None w = (Inr self, w') \<longrightarrow>
         (\<exists>out err s'. ex vgs_names_call (sys w) = (Inr (out, err), s')
                      \<and> vg \<in> set (py_split out)))
   \<and> (\<forall>out err s'. ex vgs_names_call (sys w) = (Inr (out, err), s')
                    \<and> vg \<notin> set (py_split out) \<longrightarrow>
         fst (init ex vg True None w) = Inl (VolumeGroupNotFound vg))"
proof (intro conjI allI impI)
  show "init ex vg True None w = init ex vg False None w"
    by (simp add: init_no_pvs)
  show "issued (snd (init ex vg True None w)) = issued w @ [vgs_names_call]"
    by (rule init_no_pvs_issued)
  show "filter is_vgcreate (issued (snd (init ex vg True None w))) = filter is_vgcreate (issued w)"
    by (simp add: init_no_pvs_issued is_vgcreate_def vgs_names_call_def sudo_call_def)
next
  fix self w'
  assume "init ex vg True None w = (Inr self, w')"
  then show "\<exists>out err s'. ex vgs_names_call (sys w) = (Inr (out, err), s')
                         \<and> vg \<in> set (py_split out)"
    by (cases "ex vgs_names_call (sys w)")
       (auto simp: init_no_pvs execute_def split: prod.splits sum.splits if_splits)
next
  fix out err s'
  assume "ex vgs_names_call (sys w) = (Inr (out, err), s') \<and> vg \<notin> set (py_split out)"
  then show "fst (init ex vg True None w) = Inl (VolumeGroupNotFound vg)"
    by (simp add: init_no_pvs execute_def)
qed

text \<open>
  On the system that has only \<open>vg0\<close>, asking to create \<open>vg7\<close> without devices leaves
  the system as it was and fails; for \<open>vg0\<close> itself the construction succeeds.
\<close>

theorem init_create_flag_without_pvs_witness:
  "init vg_store ''vg7'' True None (fresh_world [''vg0'']) =
     (Inl (VolumeGroupNotFound ''vg7''),
      \<lparr>sys = [''vg0''], issued = [vgs_names_call],
       logged = [''Unable to locate Volume Group vg7'']\<rparr>)
   \<and> fst (init vg_store ''vg0'' True None (fresh_world [''vg0''])) = Inr (new_lvm ''vg0'')"
  using init_create_flag_without_pvs [of vg_store "''vg7''" "fresh_world [''vg0'']"]
        init_create_flag_without_pvs [of vg_store "''vg0''" "fresh_world [''vg0'']"]
  by (simp add: init_no_pvs execute_def vg_store_def fresh_world_def log_error_def
        string_defs)

section \<open>Snapshots\<close>

text \<open>
  C8. \<open>create_lv_snapshot(name, source_lv_name, kind)\<close> first fetches the LV inventory
  of the bound group. When no record of it has exactly the name of the source, the
  method logs the failure and returns \<open>False\<close>, and the inventory query is the only
  command it has issued. When a record is found and \<open>kind\<close> is not \<open>thin\<close>, the
  second and last command is the \<open>lvcreate --snapshot\<close> line ending in \<open>-L\<close> and the
  size field of that record. The hypothesis says that the inventory command returned.
\<close>

theorem create_lv_snapshot_checks_source:
  assumes "ex (lvs_call (Some (vg_name self))) (sys w) = (Inr (out, err), s1)"
  shows "((\<forall>d \<in> set (map lv_dict (izip3 (py_split out))).
             map_of d ''name'' \<noteq> Some (PyStr src)) \<longrightarrow>
            create_lv_snapshot ex self nm src kind w =
              (Inr (PyBool False),
               self\<lparr>lv_list := map lv_dict (izip3 (py_split out))\<rparr>,
               w\<lparr>sys := s1, issued := issued w @ [lvs_call (Some (vg_name self))],
                 logged := logged w @ [''FAIL'']\<rparr>))
       \<and> (\<forall>g n sz.
            find (\<lambda>d. map_of d ''name'' = Some (PyStr src)) (map lv_dict (izip3 (py_split out)))
              = Some (lv_dict (g, n, sz)) \<and> kind \<noteq> ''thin'' \<longrightarrow>
            issued (snd (snd (create_lv_snapshot ex self nm src kind w))) =
              issued w @ [lvs_call (Some (vg_name self)),
                          sudo_call (map PyStr [''lvcreate'', ''--name'', nm, ''--snapshot'',
                                                vg_name self @ ''/'' @ src, ''-L'', sz])])"
proof (intro conjI allI impI)
  let ?lvs = "map lv_dict (izip3 (py_split out))"
  let ?P = "\<lambda>d. map_of d ''name'' = Some (PyStr src)"
  note gv = get_volume_ok [of ex self w out err s1 src, OF assms]
  {
    assume "\<forall>d \<in> set ?lvs. map_of d ''name'' \<noteq> Some (PyStr src)"
    then have "find ?P ?lvs = None" by (simp add: find_None_iff)
    then show "create_lv_snapshot ex self nm src kind w =
              (Inr (PyBool False), self\<lparr>lv_list := ?lvs\<rparr>,
               w\<lparr>sys := s1, issued := issued w @ [lvs_call (Some (vg_name self))],
                 logged := logged w @ [''FAIL'']\<rparr>)"
      by (simp add: create_lv_snapshot_def gv log_error_def)
  }
  {
    fix g n sz
    assume "find ?P ?lvs = Some (lv_dict (g, n, sz)) \<and> kind \<noteq> ''thin''"
    then show "issued (snd (snd (create_lv_snapshot ex self nm src kind w))) =
              issued w @ [lvs_call (Some (vg_name self)),
                          sudo_call (map PyStr [''lvcreate'', ''--name'', nm, ''--snapshot'',
                                                vg_name self @ ''/'' @ src, ''-L'', sz])]"
      by (simp add: create_lv_snapshot_def gv execute_discard_def execute_eq getitem_def
            lv_dict_def Let_def split: prod.splits sum.splits)
  }
qed

text \<open>
  On the example host: a snapshot of \<open>lv\<close>, which is no volume, stops after the
  inventory query; a snapshot of \<open>lv1\<close> passes the size \<open>1.00g\<close> of \<open>lv1\<close>.
\<close>

theorem create_lv_snapshot_checks_source_witness:
  "create_lv_snapshot lvm_host (new_lvm ''vg0'') ''snap1'' ''lv'' ''default'' (fresh_world ()) =
     (Inr (PyBool False),
      (new_lvm ''vg0'')
        \<lparr>lv_list := [[(''vg'', PyStr ''vg0''), (''name'', PyStr ''lv10''), (''size'', PyStr ''2.00g'')],
                     [(''vg'', PyStr ''vg0''), (''name'', PyStr ''lv1''), (''size'', PyStr ''1.00g'')]]\<rparr>,
      \<lparr>sys = (), issued = [lvs_call (Some ''vg0'')], logged = [''FAIL'']\<rparr>)
   \<and> issued (snd (snd (create_lv_snapshot lvm_host (new_lvm ''vg0'') ''snap1'' ''lv1'' ''default''
                          (fresh_world ())))) =
       [lvs_call (Some ''vg0''),
        sudo_call (map PyStr [''lvcreate'', ''--name'', ''snap1'', ''--snapshot'', ''vg0/lv1'',
                              ''-L'', ''1.00g''])]"
  using create_lv_snapshot_checks_source
          [of lvm_host "new_lvm ''vg0''" "fresh_world ()" _ _ _ "''lv''" "''snap1''" "''default''",
           OF lvm_host_lvs, THEN conjunct1]
        create_lv_snapshot_checks_source
          [of lvm_host "new_lvm ''vg0''" "fresh_world ()" _ _ _ "''lv1''" "''snap1''" "''default''",
           OF lvm_host_lvs, THEN conjunct2, rule_format, of "''vg0''" "''lv1''" "''1.00g''"]
  by (simp add: string_defs lv_dict_def new_lvm_def fresh_world_def)

section \<open>Refreshing the volume group summary\<close>

lemma pv_dict_eq:
  "pv_dict pv =
     (if length (split_sep CHR '':'' pv) < 4 then Inl IndexError else Inr (pv_fields pv))"
  by (simp add: pv_dict_def pv_fields_def py_index_def bind_exn_def Let_def)

lemma for_append_pv_dict:
  "for_append pv_dict toks =
     (if \<exists>pv \<in> set toks. length (split_sep CHR '':'' pv) < 4 then Inl IndexError
      else Inr (map pv_fields toks))"
  by (induction toks) (auto simp: pv_dict_eq)

text \<open>
  The records of the list that \<open>update_volume_group_info\<close> reads have no \<open>lv_count\<close>
  key, so the method raises on every system: when the inventory command fails, when an
  entry is short, when the list is empty, and otherwise at \<open>vg_list[0]['lv_count']\<close>.
\<close>

lemma update_volume_group_info_never_returns:
  "\<exists>e. fst (update_volume_group_info ex self w) = Inl e"
proof -
  obtain r s1 where x: "ex (pvs_call (Some (vg_name self))) (sys w) = (r, s1)"
    by (cases "ex (pvs_call (Some (vg_name self))) (sys w)")
  show ?thesis
  proof (cases r)
    case (Inl e)
    with x show ?thesis
      by (simp add: update_volume_group_info_def get_all_physical_volumes_def execute_def)
  next
    case (Inr oe)
    obtain out err where oe: "oe = (out, err)" by (cases oe)
    have lc: "first_item (map pv_fields (py_split out)) ''lv_count'' =
                Inl (if py_split out = [] then IndexError else KeyError ''lv_count'')"
      by (cases "py_split out")
         (simp_all add: first_item_def py_index_def bind_exn_def getitem_def pv_fields_def Let_def)
    from x Inr oe lc show ?thesis
      by (simp add: update_volume_group_info_def get_all_physical_volumes_def execute_def
            for_append_pv_dict Let_def split: sum.splits)
  qed
qed

text \<open>
  C1. On the example host, whose group \<open>vg0\<close> has a well-formed VG summary line,
  \<open>update_volume_group_info\<close> issues the physical-volume query and not the VG summary
  query, takes \<open>vg_size\<close> and \<open>vg_available_space\<close> from the PV record, and then raises
  \<open>KeyError('lv_count')\<close>: \<open>vg_lv_count\<close> and \<open>vg_uuid\<close> keep their initial values
  and no record is returned.
\<close>

theorem update_volume_group_info_reads_pvs:
  "update_volume_group_info lvm_host (new_lvm ''vg0'') (fresh_world ()) =
     (Inl (KeyError ''lv_count''),
      (new_lvm ''vg0'')\<lparr>vg_size := PyStr ''10.00g'', vg_available_space := PyStr ''5.00g''\<rparr>,
      \<lparr>sys = (), issued = [pvs_call (Some ''vg0'')], logged = []\<rparr>)"
  by (simp add: update_volume_group_info_def get_all_physical_volumes_def execute_def
        lvm_host_def fresh_world_def new_lvm_def call_defs string_defs pv_dict_def
        py_index_def bind_exn_def first_item_def getitem_def Let_def)

text \<open>The query the method does not use returns the record the fields are named after.\<close>

lemma get_all_volume_groups_example:
  "fst (get_all_volume_groups lvm_host (Some ''vg0'') (fresh_world ())) =
     Inr [[(''name'', PyStr ''vg0''), (''size'', PyStr ''10.00g''),
           (''available'', PyStr ''5.00g''), (''lv_count'', PyStr ''2''),
           (''uuid'', PyStr ''Hx3C-9kq'')]]"
  by (simp add: get_all_volume_groups_def execute_def lvm_host_def fresh_world_def call_defs
        string_defs vg_dict_def py_index_def bind_exn_def Let_def)

section \<open>Parsing of inventory output\<close>

lemma izip3_length: "length (izip3 xs) = length xs div 3"
  by (induction xs rule: izip3.induct) simp_all

lemma izip3_nth:
  "i < length xs div 3 \<Longrightarrow> izip3 xs ! i = (xs ! (3 * i), xs ! (3 * i + 1), xs ! (3 * i + 2))"
proof (induction xs arbitrary: i rule: izip3.induct)
  case (1 a b c rest)
  show ?case
  proof (cases i)
    case 0
    then show ?thesis by simp
  next
    case (Suc j)
    with "1.prems" have "j < length rest div 3" by simp
    then have "izip3 rest ! j = (rest ! (3 * j), rest ! (3 * j + 1), rest ! (3 * j + 2))"
      by (rule "1.IH")
    with Suc show ?thesis by (simp add: numeral_3_eq_3)
  qed
qed simp_all

text \<open>
  C4, as the code has it. No parsing step checks a field count against a schema and no
  \<open>ParseError\<close> exists. The LV parser splits the whole output at whitespace and groups
  the pieces three at a time, whatever the lines were: it always returns, with as many
  records as a third of the number of pieces (rounded down), record \<open>i\<close> made of pieces
  \<open>3i\<close>, \<open>3i+1\<close> and \<open>3i+2\<close>. The PV parser splits each whitespace-delimited entry at
  the colons: an entry with fewer than four fields ends the call with \<open>IndexError\<close>,
  so no record list is returned; otherwise every entry gives the record of its first
  four fields. The hypotheses say that the inventory command returned.
\<close>

theorem parsing_without_field_count_check:
  "(ex (lvs_call vg) (sys w) = (Inr (out, err), s') \<longrightarrow>
      (\<exists>recs. fst (get_all_volumes ex vg w) = Inr recs
         \<and> length recs = length (py_split out) div 3
         \<and> (\<forall>i < length recs.
               recs ! i = lv_dict (py_split out ! (3 * i), py_split out ! (3 * i + 1),
                                   py_split out ! (3 * i + 2)))))
   \<and> (ex (pvs_call vg) (sys w) = (Inr (out, err), s') \<longrightarrow>
      fst (get_all_physical_volumes ex vg w) =
        (if \<exists>pv \<in> set (py_split out). length (split_sep CHR '':'' pv) < 4
         then Inl IndexError
         else Inr (map pv_fields (py_split out))))"
proof (intro conjI impI)
  assume h: "ex (lvs_call vg) (sys w) = (Inr (out, err), s')"
  have "fst (get_all_volumes ex vg w) = Inr (map lv_dict (izip3 (py_split out)))"
    using h by (simp add: get_all_volumes_ok)
  moreover have "length (map lv_dict (izip3 (py_split out))) = length (py_split out) div 3"
    by (simp add: izip3_length)
  moreover have "\<forall>i < length (map lv_dict (izip3 (py_split out))).
      map lv_dict (izip3 (py_split out)) ! i =
        lv_dict (py_split out ! (3 * i), py_split out ! (3 * i + 1), py_split out ! (3 * i + 2))"
    by (simp add: izip3_length izip3_nth)
  ultimately show "\<exists>recs. fst (get_all_volumes ex vg w) = Inr recs
         \<and> length recs = length (py_split out) div 3
         \<and> (\<forall>i < length recs.
               recs ! i = lv_dict (py_split out ! (3 * i), py_split out ! (3 * i + 1),
                                   py_split out ! (3 * i + 2)))"
    by blast
next
  assume h: "ex (pvs_call vg) (sys w) = (Inr (out, err), s')"
  then show "fst (get_all_physical_volumes ex vg w) =
        (if \<exists>pv \<in> set (py_split out). length (split_sep CHR '':'' pv) < 4
         then Inl IndexError
         else Inr (map pv_fields (py_split out)))"
    by (simp add: get_all_physical_volumes_def execute_def for_append_pv_dict)
qed

text \<open>
  On the host with ragged output the PV line with three fields gives \<open>IndexError\<close>, and
  on the example host the well-formed lines give one record each.
\<close>

theorem parsing_without_field_count_check_witness:
  "fst (get_all_physical_volumes ragged_host (Some ''vg1'') (fresh_world ())) = Inl IndexError
   \<and> fst (get_all_physical_volumes lvm_host (Some ''vg0'') (fresh_world ())) =
       Inr [[(''vg'', PyStr ''vg0''), (''name'', PyStr ''/dev/sda1''),
             (''size'', PyStr ''10.00g''), (''available'', PyStr ''5.00g'')]]
   \<and> fst (get_all_volumes lvm_host (Some ''vg0'') (fresh_world ())) =
       Inr [[(''vg'', PyStr ''vg0''), (''name'', PyStr ''lv10''), (''size'', PyStr ''2.00g'')],
            [(''vg'', PyStr ''vg0''), (''name'', PyStr ''lv1''), (''size'', PyStr ''1.00g'')]]"
  using parsing_without_field_count_check
          [of lvm_host "Some ''vg0''" "fresh_world ()"
              "''  vg0 lv10 2.00g'' @ [CHR 0x0A] @ ''  vg0 lv1 1.00g'' @ [CHR 0x0A]" "[]" "()",
           THEN conjunct1]
        parsing_without_field_count_check
          [of ragged_host "Some ''vg1''" "fresh_world ()"
              "''  vg1:/dev/sdb1:20.00g'' @ [CHR 0x0A]" "[]" "()", THEN conjunct2]
        parsing_without_field_count_check
          [of lvm_host "Some ''vg0''" "fresh_world ()"
              "''  vg0:/dev/sda1:10.00g:5.00g'' @ [CHR 0x0A]" "[]" "()", THEN conjunct2]
  by (simp add: get_all_volumes_def execute_def ragged_host_def lvm_host_def fresh_world_def
        call_defs string_defs pv_fields_def lv_dict_def Let_def)

text \<open>
  C4 as stated fails on the host with ragged output. The first LV line has two
  fields: no error is raised, the record takes the group name of the second line as
  its size, and the rest of the second line is dropped. The PV line has five fields: no
  error is raised and the fifth field is dropped.
\<close>

theorem parsing_counterexample:
  "fst (get_all_volumes ragged_host None (fresh_world ())) =
     Inr [[(''vg'', PyStr ''vg0''), (''name'', PyStr ''lv1''), (''size'', PyStr ''vg0'')]]
   \<and> fst (get_all_physical_volumes ragged_host None (fresh_world ())) =
     Inr [[(''vg'', PyStr ''vg0''), (''name'', PyStr ''/dev/sda1''), (''size'', PyStr ''10.00g''),
           (''available'', PyStr ''5.00g'')]]"
  by (simp add: get_all_volumes_def get_all_physical_volumes_def execute_def
        ragged_host_def fresh_world_def call_defs string_defs pv_dict_def lv_dict_def
        py_index_def bind_exn_def Let_def)

section \<open>Revert\<close>

lemma get_scan_issued: "issued (snd (get_scan nm out w)) = issued w"
  by (induction out) (auto simp: Let_def log_error_def)

text \<open>
  The scan of \<open>get\<close> looks at one character at a time, and one character never splits
  into two fields: the scan never finds a group.
\<close>

lemma get_scan_never_finds: "fst (get_scan nm out w) \<noteq> Inr (Some v)"
  by (induction out) (auto simp: Let_def py_split_def)

lemma lv_utils_get_no_merge:
  "filter is_merge (issued (snd (lv_utils_get ex nm vg w))) = filter is_merge (issued w)"
proof (cases vg)
  case None
  obtain r s1 where x: "ex lvs_names_call (sys w) = (r, s1)"
    by (cases "ex lvs_names_call (sys w)")
  have m: "\<not> is_merge lvs_names_call"
    by (simp add: is_merge_def lvs_names_call_def root_call_def)
  show ?thesis
  proof (cases r)
    case (Inl e)
    with None x m show ?thesis
      by (simp add: lv_utils_get_def get_find_vg_def execute_def)
  next
    case (Inr oe)
    obtain out err where oe: "oe = (out, err)" by (cases oe)
    let ?w1 = "w\<lparr>sys := s1, issued := issued w @ [lvs_names_call]\<rparr>"
    obtain q w2 where g: "get_scan nm out ?w1 = (q, w2)"
      by (cases "get_scan nm out ?w1")
    have i2: "issued w2 = issued w @ [lvs_names_call]"
      using get_scan_issued [of nm out ?w1] g by simp
    have nf: "\<And>v. q \<noteq> Inr (Some v)"
      using get_scan_never_finds [of nm out ?w1] g by simp
    have "issued (snd (lv_utils_get ex nm vg w)) = issued w @ [lvs_names_call]"
    proof (cases q)
      case (Inl e)
      with None x Inr oe g i2 show ?thesis
        by (simp add: lv_utils_get_def get_find_vg_def execute_def)
    next
      case (Inr found)
      with nf have "found = None" by (cases found) auto
      with None x \<open>r = Inr oe\<close> oe g i2 Inr show ?thesis
        by (simp add: lv_utils_get_def get_find_vg_def execute_def log_error_def)
    qed
    with m show ?thesis by simp
  qed
next
  case (Some v)
  have m: "\<not> is_merge (lvdisplay_call v nm)"
    by (simp add: is_merge_def lvdisplay_call_def root_call_def)
  have "issued (snd (lv_utils_get ex nm vg w)) = issued w @ [lvdisplay_call v nm]"
    using Some
    by (simp add: lv_utils_get_def get_find_vg_def execute_eq split: prod.splits sum.splits)
  with m show ?thesis by simp
qed

text \<open>Without a group name \<open>lv_utils.get\<close> raises on every system and for every name.\<close>

lemma lv_utils_get_without_vg_fails:
  "\<exists>e. fst (lv_utils_get ex nm None w) = Inl e"
proof -
  obtain r s1 where x: "ex lvs_names_call (sys w) = (r, s1)"
    by (cases "ex lvs_names_call (sys w)")
  show ?thesis
  proof (cases r)
    case (Inl e)
    with x show ?thesis by (simp add: lv_utils_get_def get_find_vg_def execute_def)
  next
    case (Inr oe)
    obtain out err where oe: "oe = (out, err)" by (cases oe)
    let ?w1 = "w\<lparr>sys := s1, issued := issued w @ [lvs_names_call]\<rparr>"
    obtain q w2 where g: "get_scan nm out ?w1 = (q, w2)"
      by (cases "get_scan nm out ?w1")
    have nf: "\<And>v. q \<noteq> Inr (Some v)"
      using get_scan_never_finds [of nm out ?w1] g by simp
    show ?thesis
    proof (cases q)
      case (Inl e)
      with x Inr oe g show ?thesis
        by (simp add: lv_utils_get_def get_find_vg_def execute_def)
    next
      case (Inr found)
      with nf have "found = None" by (cases found) auto
      with x \<open>r = Inr oe\<close> oe g Inr show ?thesis
        by (simp add: lv_utils_get_def get_find_vg_def execute_def)
    qed
  qed
qed

text \<open>
  C3, as the code has it. \<open>LVM.revert\<close> looks nothing up: for every snapshot name the
  one command it issues is \<open>lvconvert --merge\<close> with that name, so a name without a
  snapshot shows only as the failure of the merge command itself. The function
  \<open>lv_utils.revert\<close> does look the name up first: whenever its lookup raises, the revert
  raises the same exception and has issued no merge command.
\<close>

theorem revert_lookup_only_in_lv_utils:
  "issued (snd (snd (revert ex self snap w))) = issued w @ [merge_call (PyStr snap)]
   \<and> (\<forall>e w1. lv_utils_get ex snap vg w = (Inl e, w1) \<longrightarrow>
         lv_utils_revert ex snap vg w = (Inl e, w1)
         \<and> filter is_merge (issued w1) = filter is_merge (issued w))"
proof (intro conjI allI impI)
  show "issued (snd (snd (revert ex self snap w))) = issued w @ [merge_call (PyStr snap)]"
    by (simp add: revert_def execute_discard_def execute_eq split: sum.splits)
next
  fix e w1
  assume h: "lv_utils_get ex snap vg w = (Inl e, w1)"
  then show "lv_utils_revert ex snap vg w = (Inl e, w1)"
    by (simp add: lv_utils_revert_def)
  from h lv_utils_get_no_merge [of ex snap vg w]
  show "filter is_merge (issued w1) = filter is_merge (issued w)"
    by simp
qed

text \<open>
  On the example host, which has no volume \<open>snap9\<close>: the function-style revert stops at
  the failing \<open>lvdisplay\<close>, and the method issues the merge.
\<close>

theorem revert_lookup_only_in_lv_utils_witness:
  "lv_utils_revert lvm_host ''snap9'' (Some ''vg0'') (fresh_world ()) =
     (Inl (ProcessExecutionError 5 [] ''not found''),
      \<lparr>sys = (), issued = [lvdisplay_call ''vg0'' ''snap9''], logged = []\<rparr>)
   \<and> issued (snd (snd (revert lvm_host (new_lvm ''vg0'') ''snap9'' (fresh_world ())))) =
       [merge_call (PyStr ''snap9'')]"
  using revert_lookup_only_in_lv_utils
          [of lvm_host "new_lvm ''vg0''" "''snap9''" "fresh_world ()" "Some ''vg0''"]
  by (simp add: lv_utils_get_def get_find_vg_def execute_def lvm_host_def fresh_world_def
        call_defs)

text \<open>
  C3 as stated fails for \<open>LVM.revert\<close>: on the example host, where no snapshot
  \<open>snap9\<close> exists, the method issues the merge command, and the error is the one that
  command exits with.
\<close>

theorem revert_counterexample:
  "revert lvm_host (new_lvm ''vg0'') ''snap9'' (fresh_world ()) =
     (Inl (ProcessExecutionError 5 [] ''not found''), new_lvm ''vg0'',
      \<lparr>sys = (), issued = [merge_call (PyStr ''snap9'')], logged = []\<rparr>)"
  by (simp add: revert_def execute_discard_def execute_def lvm_host_def fresh_world_def call_defs)

section \<open>Mirror region size\<close>

lemma py_int_digits:
  "py_int ''549755813888'' = Inr 549755813888"
  "py_int ''2048'' = Inr 2048"
  "py_int ''3072'' = Inr 3072"
  "py_int ''1024'' = Inr 1024"
  by (simp_all add: py_int_def strip_def isspace_def is_digit_def digits_value_def Let_def)

text \<open>
  The threshold is exact: when the integer converts and divides by 1024 without
  rounding (as every integer below \<open>2 ^ 53\<close> does), the \<open>-R\<close> flag is left out exactly
  for sizes below 1536 gigabytes, whatever the logarithm does.
\<close>

lemma region_flag_threshold:
  assumes "py_int (butlast sz) = Inr n"
    and "float_of_int fp n = Some (real_of_int n)"
    and "fdiv fp (real_of_int n) 1024 = real_of_int n / 1024"
  shows "(region_size fp sz = Inr None) = (n < 1536)"
  using assms
  by (auto simp: region_size_def bind_exn_def terras_of_def split: sum.splits)

lemma next_power_exact:
  assumes "1 \<le> t"
  shows "next_power exact_floats t = Inr (2 ^ nat \<lceil>log 2 t\<rceil>)"
proof -
  have "0 \<le> log 2 t" using assms by simp
  then have k: "0 \<le> \<lceil>log 2 t\<rceil>" by (simp add: le_ceiling_iff)
  have "ln t / ln 2 = log 2 t" by (simp add: log_def)
  moreover have "(2::real) powr real_of_int \<lceil>log 2 t\<rceil> = 2 ^ nat \<lceil>log 2 t\<rceil>"
    using k by (simp add: powr_real_of_int)
  moreover have "\<lfloor>(2::real) ^ nat \<lceil>log 2 t\<rceil>\<rfloor> = 2 ^ nat \<lceil>log 2 t\<rceil>"
    by (metis floor_of_int of_int_numeral of_int_power)
  ultimately show ?thesis
    by (simp add: next_power_def exact_floats_def Let_def)
qed

text \<open>
  Without rounding the code computes what its comment says, the next power of two: the
  least power of two that is not below the size in terabytes.
\<close>

lemma least_power_of_two:
  assumes "1 \<le> t"
  shows "t \<le> 2 ^ nat \<lceil>log 2 t\<rceil> \<and> (\<forall>j. t \<le> 2 ^ j \<longrightarrow> nat \<lceil>log 2 t\<rceil> \<le> j)"
proof (intro conjI allI impI)
  have "0 \<le> log 2 t" using assms by simp
  then have k: "0 \<le> \<lceil>log 2 t\<rceil>" by (simp add: le_ceiling_iff)
  have "t = 2 powr log 2 t" using assms by simp
  also have "\<dots> \<le> 2 powr real_of_int \<lceil>log 2 t\<rceil>"
    by (intro powr_mono) simp_all
  also have "\<dots> = 2 ^ nat \<lceil>log 2 t\<rceil>" using k by (simp add: powr_real_of_int)
  finally show "t \<le> 2 ^ nat \<lceil>log 2 t\<rceil>" .
next
  fix j :: nat
  assume "t \<le> 2 ^ j"
  then have "log 2 t \<le> real j" using assms by (simp add: log_le_iff powr_realpow)
  then have "\<lceil>log 2 t\<rceil> \<le> int j" by (simp add: ceiling_le_iff)
  then show "nat \<lceil>log 2 t\<rceil> \<le> j" by (simp only: nat_le_iff)
qed

lemma region_size_exact:
  assumes "py_int (butlast sz) = Inr n" and "1536 \<le> n"
  shows "region_size exact_floats sz = Inr (Some (2 ^ nat \<lceil>log 2 (real_of_int n / 1024)\<rceil>))"
proof -
  have t: "1 \<le> real_of_int n / 1024" using assms(2) by simp
  have "terras_of exact_floats n = Inr (real_of_int n / 1024)"
    by (simp add: terras_of_def exact_floats_def)
  moreover have "real_of_int n / 1024 \<ge> 1.5" using assms(2) by simp
  ultimately show ?thesis
    using assms(1) next_power_exact [OF t]
    by (simp add: region_size_def bind_exn_def)
qed

lemma log2_3_ceiling: "\<lceil>log 2 (3::real)\<rceil> = 2"
proof (rule ceiling_unique)
  show "real_of_int 2 - 1 < log 2 3" by (simp add: less_log_iff)
  show "log 2 3 \<le> real_of_int 2" by (simp add: log_le_iff)
qed

text \<open>
  Without rounding: 2048G gives region size 2, 3072G gives 4, 1024G gives no flag, and
  the size of \<open>2 ^ 29\<close> terabytes gives \<open>2 ^ 29\<close>.
\<close>

lemma region_size_exact_examples:
  "region_size exact_floats ''2048G'' = Inr (Some 2)
   \<and> region_size exact_floats ''3072G'' = Inr (Some 4)
   \<and> region_size exact_floats ''1024G'' = Inr None
   \<and> region_size exact_floats ''549755813888G'' = Inr (Some 536870912)"
proof (intro conjI)
  have "log 2 (real_of_int 2048 / 1024) = 1" by simp
  with region_size_exact [of "''2048G''" 2048] py_int_digits(2)
  show "region_size exact_floats ''2048G'' = Inr (Some 2)" by simp
  have "real_of_int 3072 / 1024 = 3" by simp
  with region_size_exact [of "''3072G''" 3072] py_int_digits(3) log2_3_ceiling
  show "region_size exact_floats ''3072G'' = Inr (Some 4)" by simp
  from region_flag_threshold [of "''1024G''" 1024 exact_floats] py_int_digits(4)
  show "region_size exact_floats ''1024G'' = Inr None" by (simp add: exact_floats_def)
  have "log 2 (real_of_int 549755813888 / 1024) = 29"
    using log_pow_cancel [of "2::real" 29] by simp
  then have "nat \<lceil>log 2 (real_of_int 549755813888 / 1024)\<rceil> = 29" by simp
  with region_size_exact [of "''549755813888G''" 549755813888] py_int_digits(1)
  show "region_size exact_floats ''549755813888G'' = Inr (Some 536870912)" by simp
qed

lemma region_size_observed:
  "region_size observed_floats ''549755813888G'' = Inr (Some 1073741824)"
  by (simp add: region_size_def py_int_digits bind_exn_def terras_of_def next_power_def
        observed_floats_def Let_def)

text \<open>The function-style \<open>create\<close> raises for every argument and issues no command.\<close>

lemma lv_utils_create_raises:
  "lv_utils_create ex nm sz vg mirror_count kind w = (Inl (AttributeError ''int_to_string''), w)"
  by (simp add: lv_utils_create_def)

text \<open>
  C6. A mirrored volume of 549755813888G is \<open>2 ^ 29\<close> terabytes, a power of two. With
  the doubles that \<open>math.log\<close> and the division return for it, the quotient of the
  logarithms is just above 29, its ceiling is 30, and \<open>create_volume\<close> passes
  \<open>-R 1073741824\<close>, that is \<open>2 ^ 30\<close>: twice the power of two that the size is. Without
  rounding the same code gives \<open>2 ^ 29\<close>.
\<close>

theorem create_volume_region_at_power_of_two:
  "issued (snd (snd (create_volume observed_floats lvm_host (new_lvm ''vg0'') ''big''
                       ''549755813888G'' ''default'' 1 (fresh_world ())))) =
     [sudo_call [PyStr ''lvcreate'', PyStr ''-n'', PyStr ''big'', PyStr ''vg0'', PyStr ''-L'',
                 PyStr ''549755813888G'', PyStr ''-m'', PyInt 1, PyStr ''--nosync'',
                 PyStr ''-R'', PyStr ''1073741824'']]
   \<and> region_size exact_floats ''549755813888G'' = Inr (Some 536870912)"
  by (simp add: create_volume_def region_size_observed region_size_exact_examples
        execute_discard_def execute_eq fresh_world_def new_lvm_def py_str_def digits_of.simps
        Let_def split: prod.splits sum.splits)

section \<open>Remote execution: the attempt budget\<close>

lemma attempts_made_append: "attempts_made (xs @ ys) = attempts_made xs + attempts_made ys"
  by (simp add: attempts_made_def)

lemma attempts_made_simps:
  "attempts_made [] = 0"
  "attempts_made (Executed c k # evs) = Suc (attempts_made evs)"
  "attempts_made (Logged_exception e # evs) = attempts_made evs"
  "attempts_made (Logged_error m # evs) = attempts_made evs"
  "attempts_made (Slept r # evs) = attempts_made evs"
  by (simp_all add: attempts_made_def)

lemma do_ssh_execute_eq:
  "do_ssh_execute t c k w =
     (fst (ssh_execute t c k (rstate w)),
      w\<lparr>rstate := snd (ssh_execute t c k (rstate w)), events := events w @ [Executed c k]\<rparr>)"
  by (simp add: do_ssh_execute_def split: prod.splits)

lemma log_and_sleep_eq:
  "log_and_sleep t e w =
     w\<lparr>rstate := snd (randint t (rstate w)),
       events := events w @ [Logged_exception e, Slept (fst (randint t (rstate w)))]\<rparr>"
  by (simp add: log_and_sleep_def split: prod.splits)

lemma ssh_loop_failure:
  "ssh_loop t c k tot a w = (Inl e, w') \<Longrightarrow>
     e = SSHException ssh_failed_template (ssh_locals c k (min a 0) tot)
     \<and> attempts_made (events w') = attempts_made (events w) + nat a"
proof (induction t c k tot a w rule: ssh_loop.induct)
  case (1 t c k tot a w)
  show ?case
  proof (cases "a > 0")
    case False
    with "1.prems" show ?thesis
      by (simp add: ssh_loop.simps [of t c k tot a w] min_def)
  next
    case True
    obtain r w1 where d: "do_ssh_execute t c k w = (r, w1)"
      by (cases "do_ssh_execute t c k w")
    have ev1: "events w1 = events w @ [Executed c k]"
      using d by (auto simp: do_ssh_execute_eq)
    show ?thesis
    proof (cases r)
      case (Inr res)
      with True d "1.prems" show ?thesis
        by (simp add: ssh_loop.simps [of t c k tot a w])
    next
      case (Inl e1)
      with True d "1.prems"
      have rec: "ssh_loop t c k tot (a - 1) (log_and_sleep t e1 w1) = (Inl e, w')"
        by (simp add: ssh_loop.simps [of t c k tot a w])
      have "e = SSHException ssh_failed_template (ssh_locals c k (min (a - 1) 0) tot)
            \<and> attempts_made (events w') =
                attempts_made (events (log_and_sleep t e1 w1)) + nat (a - 1)"
        using True d Inl rec by (intro "1.IH") auto
      moreover have "attempts_made (events (log_and_sleep t e1 w1)) = Suc (attempts_made (events w))"
        by (simp add: log_and_sleep_eq ev1 attempts_made_append attempts_made_simps)
      moreover have "min (a - 1) 0 = min a 0" using True by simp
      moreover have "Suc (nat (a - 1)) = nat a" using True by simp
      ultimately show ?thesis by simp
    qed
  qed
qed

lemma ssh_loop_all_fail:
  "\<forall>s. isl (fst (ssh_execute t c k s)) \<Longrightarrow> isl (fst (ssh_loop t c k tot a w))"
proof (induction t c k tot a w rule: ssh_loop.induct)
  case (1 t c k tot a w)
  show ?case
  proof (cases "a > 0")
    case False
    then show ?thesis by (simp add: ssh_loop.simps [of t c k tot a w])
  next
    case True
    obtain r w1 where d: "do_ssh_execute t c k w = (r, w1)"
      by (cases "do_ssh_execute t c k w")
    from "1.prems" d obtain e1 where r: "r = Inl e1"
      by (cases r) (auto simp: do_ssh_execute_eq dest: spec [of _ "rstate w"])
    have "isl (fst (ssh_loop t c k tot (a - 1) (log_and_sleep t e1 w1)))"
      using True d r "1.prems" by (intro "1.IH") auto
    with True d r show ?thesis
      by (simp add: ssh_loop.simps [of t c k tot a w])
  qed
qed

lemma ssh_loop_extends:
  "\<exists>evs. events (snd (ssh_loop t c k tot a w)) = events w @ evs"
proof (induction t c k tot a w rule: ssh_loop.induct)
  case (1 t c k tot a w)
  show ?case
  proof (cases "a > 0")
    case False
    then show ?thesis by (simp add: ssh_loop.simps [of t c k tot a w])
  next
    case True
    obtain r w1 where d: "do_ssh_execute t c k w = (r, w1)"
      by (cases "do_ssh_execute t c k w")
    have ev1: "events w1 = events w @ [Executed c k]"
      using d by (auto simp: do_ssh_execute_eq)
    show ?thesis
    proof (cases r)
      case (Inr res)
      with True d ev1 show ?thesis
        by (simp add: ssh_loop.simps [of t c k tot a w])
    next
      case (Inl e1)
      have "\<exists>evs. events (snd (ssh_loop t c k tot (a - 1) (log_and_sleep t e1 w1)))
               = events (log_and_sleep t e1 w1) @ evs"
        using True d Inl by (intro "1.IH") auto
      then obtain evs where
        "events (snd (ssh_loop t c k tot (a - 1) (log_and_sleep t e1 w1)))
           = events (log_and_sleep t e1 w1) @ evs" ..
      with True d Inl ev1 show ?thesis
        by (simp add: ssh_loop.simps [of t c k tot a w] log_and_sleep_eq)
    qed
  qed
qed

lemma ssh_loop_first_attempt:
  assumes "a > 0"
  shows "\<exists>evs. events (snd (ssh_loop t c k tot a w)) = events w @ Executed c k # evs"
proof -
  obtain r w1 where d: "do_ssh_execute t c k w = (r, w1)"
    by (cases "do_ssh_execute t c k w")
  have ev1: "events w1 = events w @ [Executed c k]"
    using d by (auto simp: do_ssh_execute_eq)
  show ?thesis
  proof (cases r)
    case (Inr res)
    with assms d ev1 show ?thesis
      by (simp add: ssh_loop.simps [of t c k tot a w])
  next
    case (Inl e1)
    obtain evs where
      "events (snd (ssh_loop t c k tot (a - 1) (log_and_sleep t e1 w1)))
         = events (log_and_sleep t e1 w1) @ evs"
      using ssh_loop_extends by blast
    with assms d Inl ev1 show ?thesis
      by (simp add: ssh_loop.simps [of t c k tot a w] log_and_sleep_eq)
  qed
qed

lemma run_ssh_pool_ready:
  assumes "\<forall>s. fst (new_pool t s) = None" and "\<forall>s. fst (pool_item t s) = None"
  shows "\<exists>w0. events w0 = events w \<and> run_ssh t c k a w =
     (case ssh_loop t c k a a w0 of
        (Inl e, w1) \<Rightarrow>
          (Inl e, w1\<lparr>events := events w1 @ [Logged_error (''Error running ssh command: '' @ c)]\<rparr>)
      | (Inr r, w1) \<Rightarrow> (Inr r, w1))"
proof -
  obtain p sa where np: "new_pool t (rstate w) = (p, sa)" by (cases "new_pool t (rstate w)")
  with assms(1) have p: "p = None" by (metis fst_conv)
  show ?thesis
  proof (cases "sshpool w")
    case True
    obtain q sb where pi: "pool_item t (rstate w) = (q, sb)" by (cases "pool_item t (rstate w)")
    with assms(2) have q: "q = None" by (metis fst_conv)
    from True pi q show ?thesis
      by (intro exI [of _ "w\<lparr>rstate := sb\<rparr>"]) (simp add: run_ssh_def Let_def)
  next
    case False
    obtain q sb where pi: "pool_item t sa = (q, sb)" by (cases "pool_item t sa")
    with assms(2) have q: "q = None" by (metis fst_conv)
    from False np p pi q show ?thesis
      by (intro exI [of _ "w\<lparr>sshpool := True, rstate := sb\<rparr>"]) (simp add: run_ssh_def Let_def)
  qed
qed

lemma run_ssh_failure:
  assumes "\<forall>s. fst (new_pool t s) = None" and "\<forall>s. fst (pool_item t s) = None"
    and "run_ssh t c k a w = (Inl e, w')"
  shows "e = SSHException ssh_failed_template (ssh_locals c k (min a 0) a)
         \<and> attempts_made (events w') = attempts_made (events w) + nat a"
proof -
  from run_ssh_pool_ready [OF assms(1,2)] obtain w0 where
    ev0: "events w0 = events w" and
    eq: "run_ssh t c k a w =
     (case ssh_loop t c k a a w0 of
        (Inl e, w1) \<Rightarrow>
          (Inl e, w1\<lparr>events := events w1 @ [Logged_error (''Error running ssh command: '' @ c)]\<rparr>)
      | (Inr r, w1) \<Rightarrow> (Inr r, w1))" by blast
  obtain r w1 where l: "ssh_loop t c k a a w0 = (r, w1)"
    by (cases "ssh_loop t c k a a w0")
  from eq l assms(3) have r: "r = Inl e"
    and w': "w' = w1\<lparr>events := events w1 @ [Logged_error (''Error running ssh command: '' @ c)]\<rparr>"
    by (cases r; simp)+
  from ssh_loop_failure [of t c k a a w0 e w1] l r ev0
  have "e = SSHException ssh_failed_template (ssh_locals c k (min a 0) a)"
    and "attempts_made (events w1) = attempts_made (events w) + nat a" by simp_all
  with w' show ?thesis
    by (simp add: attempts_made_append attempts_made_simps)
qed

lemma run_ssh_all_fail:
  assumes "\<forall>s. fst (new_pool t s) = None" and "\<forall>s. fst (pool_item t s) = None"
    and "\<forall>s. isl (fst (ssh_execute t c k s))"
  shows "\<exists>e. fst (run_ssh t c k a w) = Inl e"
proof -
  from run_ssh_pool_ready [OF assms(1,2)] obtain w0 where
    ev0: "events w0 = events w" and
    eq: "run_ssh t c k a w =
     (case ssh_loop t c k a a w0 of
        (Inl e, w1) \<Rightarrow>
          (Inl e, w1\<lparr>events := events w1 @ [Logged_error (''Error running ssh command: '' @ c)]\<rparr>)
      | (Inr r, w1) \<Rightarrow> (Inr r, w1))" by blast
  obtain r w1 where l: "ssh_loop t c k a a w0 = (r, w1)"
    by (cases "ssh_loop t c k a a w0")
  from ssh_loop_all_fail [OF assms(3), of a a w0] l
  obtain e where "r = Inl e" by (cases r) auto
  with eq l show ?thesis by simp
qed

text \<open>
  C5. When the pool and the checkout work and every execution on the remote side
  raises, \<open>_run_ssh\<close> with an attempt budget of 3 makes exactly three execution
  attempts and then raises \<open>SSHException\<close>, the connection-failure class of the SSH
  library. The exception carries the message template and the local variables, among
  them \<open>total_attempts\<close> with the value 3 and \<open>command\<close> with the command string.
\<close>

theorem run_ssh_three_attempts:
  assumes "\<forall>s. fst (new_pool t s) = None" and "\<forall>s. fst (pool_item t s) = None"
    and "\<forall>s. isl (fst (ssh_execute t command check_exit_code s))"
  shows "fst (run_ssh t command check_exit_code 3 w) =
           Inl (SSHException ssh_failed_template (ssh_locals command check_exit_code 0 3))
       \<and> attempts_made (events (snd (run_ssh t command check_exit_code 3 w))) =
           attempts_made (events w) + 3
       \<and> map_of (ssh_locals command check_exit_code 0 3) ''total_attempts'' = Some (PyInt 3)
       \<and> map_of (ssh_locals command check_exit_code 0 3) ''command'' = Some (PyStr command)"
proof -
  obtain e where f: "fst (run_ssh t command check_exit_code 3 w) = Inl e"
    using run_ssh_all_fail [OF assms] by blast
  then have "run_ssh t command check_exit_code 3 w =
               (Inl e, snd (run_ssh t command check_exit_code 3 w))"
    by (metis prod.collapse)
  from run_ssh_failure [OF assms(1,2) this]
  have "e = SSHException ssh_failed_template (ssh_locals command check_exit_code 0 3)"
    and "attempts_made (events (snd (run_ssh t command check_exit_code 3 w))) =
           attempts_made (events w) + 3"
    by simp_all
  with f show ?thesis by (simp add: ssh_locals_def)
qed

text \<open>On the dead link: three attempts, then the exception with the count 3.\<close>

theorem run_ssh_three_attempts_witness:
  "fst (run_ssh dead_link ''lvs vg0'' (PyBool True) 3 (ssh_start ())) =
     Inl (SSHException ssh_failed_template
            [(''command'', PyStr ''lvs vg0''), (''check_exit_code'', PyBool True),
             (''attempts'', PyInt 0), (''total_attempts'', PyInt 3)])
   \<and> attempts_made (events (snd (run_ssh dead_link ''lvs vg0'' (PyBool True) 3 (ssh_start ())))) = 3"
  using run_ssh_three_attempts [of dead_link "''lvs vg0''" "PyBool True" "ssh_start ()"]
  by (simp add: dead_link_def ssh_start_def ssh_locals_def attempts_made_simps)

section \<open>Remote execution: which failures are retried\<close>

lemma ssh_loop_failure_trace:
  "ssh_loop t c k tot a w = (Inl e, w') \<Longrightarrow>
     \<exists>fs. list_all (raised_by t c k) fs \<and> length fs = nat a
          \<and> events w' = events w @ concat (map (failed_attempt c k) fs)"
proof (induction t c k tot a w rule: ssh_loop.induct)
  case (1 t c k tot a w)
  show ?case
  proof (cases "a > 0")
    case False
    with "1.prems" have "w' = w"
      by (simp add: ssh_loop.simps [of t c k tot a w])
    with False show ?thesis by (intro exI [of _ "[]"]) simp
  next
    case True
    obtain r s1 where x: "ssh_execute t c k (rstate w) = (r, s1)"
      by (cases "ssh_execute t c k (rstate w)")
    show ?thesis
    proof (cases r)
      case (Inr res)
      with True x "1.prems" show ?thesis
        by (simp add: ssh_loop.simps [of t c k tot a w] do_ssh_execute_def)
    next
      case (Inl e1)
      let ?p = "(e1, fst (randint t s1))"
      let ?w1 = "w\<lparr>rstate := s1, events := events w @ [Executed c k]\<rparr>"
      have d: "do_ssh_execute t c k w = (Inl e1, ?w1)"
        using x Inl by (simp add: do_ssh_execute_def)
      have rec: "ssh_loop t c k tot (a - 1) (log_and_sleep t e1 ?w1) = (Inl e, w')"
        using True d "1.prems" by (simp add: ssh_loop.simps [of t c k tot a w])
      have ev2: "events (log_and_sleep t e1 ?w1) = events w @ failed_attempt c k ?p"
        by (simp add: log_and_sleep_eq failed_attempt_def)
      have "\<exists>fs. list_all (raised_by t c k) fs \<and> length fs = nat (a - 1)
          \<and> events w' = events (log_and_sleep t e1 ?w1) @ concat (map (failed_attempt c k) fs)"
        by (rule "1.IH" [OF True d [symmetric] refl rec])
      then obtain fs where f1: "list_all (raised_by t c k) fs" and f2: "length fs = nat (a - 1)"
        and f3: "events w' = events (log_and_sleep t e1 ?w1) @ concat (map (failed_attempt c k) fs)"
        by blast
      have rb: "raised_by t c k ?p"
        unfolding raised_by_def using x Inl by auto
      have n: "Suc (nat (a - 1)) = nat a" using True by simp
      show ?thesis
      proof (intro exI [of _ "?p # fs"] conjI)
        show "list_all (raised_by t c k) (?p # fs)" using f1 rb by simp
        show "length (?p # fs) = nat a" using f2 n by simp
        show "events w' = events w @ concat (map (failed_attempt c k) (?p # fs))"
          using f3 ev2 by simp
      qed
    qed
  qed
qed

lemma ssh_loop_success_trace:
  "ssh_loop t c k tot a w = (Inr res, w') \<Longrightarrow>
     \<exists>fs. list_all (raised_by t c k) fs \<and> length fs < nat a
          \<and> (\<exists>s s1. ssh_execute t c k s = (Inr res, s1))
          \<and> events w' = events w @ concat (map (failed_attempt c k) fs) @ [Executed c k]"
proof (induction t c k tot a w rule: ssh_loop.induct)
  case (1 t c k tot a w)
  show ?case
  proof (cases "a > 0")
    case False
    with "1.prems" show ?thesis
      by (simp add: ssh_loop.simps [of t c k tot a w])
  next
    case True
    obtain r s1 where x: "ssh_execute t c k (rstate w) = (r, s1)"
      by (cases "ssh_execute t c k (rstate w)")
    let ?w1 = "w\<lparr>rstate := s1, events := events w @ [Executed c k]\<rparr>"
    have d: "do_ssh_execute t c k w = (r, ?w1)"
      using x by (simp add: do_ssh_execute_def)
    show ?thesis
    proof (cases r)
      case (Inr res1)
      with True d "1.prems" have "res1 = res" and "w' = ?w1"
        by (simp_all add: ssh_loop.simps [of t c k tot a w])
      with x Inr True show ?thesis
        by (intro exI [of _ "[]"]) auto
    next
      case (Inl e1)
      let ?p = "(e1, fst (randint t s1))"
      have d1: "do_ssh_execute t c k w = (Inl e1, ?w1)" using d Inl by simp
      have rec: "ssh_loop t c k tot (a - 1) (log_and_sleep t e1 ?w1) = (Inr res, w')"
        using True d1 "1.prems" by (simp add: ssh_loop.simps [of t c k tot a w])
      have ev2: "events (log_and_sleep t e1 ?w1) = events w @ failed_attempt c k ?p"
        by (simp add: log_and_sleep_eq failed_attempt_def)
      have "\<exists>fs. list_all (raised_by t c k) fs \<and> length fs < nat (a - 1)
          \<and> (\<exists>s s1. ssh_execute t c k s = (Inr res, s1))
          \<and> events w' = events (log_and_sleep t e1 ?w1)
                         @ concat (map (failed_attempt c k) fs) @ [Executed c k]"
        by (rule "1.IH" [OF True d1 [symmetric] refl rec])
      then obtain fs where f1: "list_all (raised_by t c k) fs" and f2: "length fs < nat (a - 1)"
        and f4: "\<exists>s s1. ssh_execute t c k s = (Inr res, s1)"
        and f3: "events w' = events (log_and_sleep t e1 ?w1)
                         @ concat (map (failed_attempt c k) fs) @ [Executed c k]"
        by blast
      have rb: "raised_by t c k ?p"
        unfolding raised_by_def using x Inl by auto
      have n: "Suc (nat (a - 1)) = nat a" using True by simp
      show ?thesis
      proof (intro exI [of _ "?p # fs"] conjI)
        show "list_all (raised_by t c k) (?p # fs)" using f1 rb by simp
        show "length (?p # fs) < nat a" using f2 n by simp
        show "\<exists>s s1. ssh_execute t c k s = (Inr res, s1)" by (rule f4)
        show "events w' = events w @ concat (map (failed_attempt c k) (?p # fs)) @ [Executed c k]"
          using f3 ev2 by simp
      qed
    qed
  qed
qed

lemma run_ssh_trace:
  assumes "\<forall>s. fst (new_pool t s) = None" and "\<forall>s. fst (pool_item t s) = None"
  shows "\<exists>fs. list_all (raised_by t c k) fs \<and>
      (case run_ssh t c k a w of
         (Inl e, w') \<Rightarrow>
           length fs = nat a
           \<and> events w' = events w @ concat (map (failed_attempt c k) fs)
                           @ [Logged_error (''Error running ssh command: '' @ c)]
       | (Inr r, w') \<Rightarrow>
           length fs < nat a
           \<and> (\<exists>s s1. ssh_execute t c k s = (Inr r, s1))
           \<and> events w' = events w @ concat (map (failed_attempt c k) fs) @ [Executed c k])"
proof -
  from run_ssh_pool_ready [OF assms] obtain w0 where
    ev0: "events w0 = events w" and
    eq: "run_ssh t c k a w =
     (case ssh_loop t c k a a w0 of
        (Inl e, w1) \<Rightarrow>
          (Inl e, w1\<lparr>events := events w1 @ [Logged_error (''Error running ssh command: '' @ c)]\<rparr>)
      | (Inr r, w1) \<Rightarrow> (Inr r, w1))" by blast
  obtain q w1 where l: "ssh_loop t c k a a w0 = (q, w1)"
    by (cases "ssh_loop t c k a a w0")
  show ?thesis
  proof (cases q)
    case (Inl e)
    with l have "ssh_loop t c k a a w0 = (Inl e, w1)" by simp
    from ssh_loop_failure_trace [OF this] obtain fs where
      "list_all (raised_by t c k) fs" "length fs = nat a"
      "events w1 = events w0 @ concat (map (failed_attempt c k) fs)" by blast
    with eq l Inl ev0 show ?thesis
      by (intro exI [of _ fs]) simp
  next
    case (Inr res)
    with l have "ssh_loop t c k a a w0 = (Inr res, w1)" by simp
    from ssh_loop_success_trace [OF this] obtain fs where
      "list_all (raised_by t c k) fs" "length fs < nat a"
      "\<exists>s s1. ssh_execute t c k s = (Inr res, s1)"
      "events w1 = events w0 @ concat (map (failed_attempt c k) fs) @ [Executed c k]" by blast
    with eq l Inr ev0 show ?thesis
      by (intro exI [of _ fs]) simp
  qed
qed

text \<open>
  C2, as the code has it. The handler of the retry loop is \<open>except Exception\<close>: it
  catches every exception derived from \<open>Exception\<close> (the exceptions of this theory) and
  does not tell failure classes apart. A non-zero exit of a delivered command is
  treated as a transport failure is. Every failed attempt is logged and followed by a
  backoff sleep, and with budget left the command is executed again. Such an exception
  never reaches the caller. After a working checkout the events of a run are one
  execution, log entry and sleep for each failed attempt, each with an exception that
  an execution raised and the number drawn after it; then either one more execution,
  whose result is returned, or, when as many attempts as the budget have failed, the
  log of the command and the \<open>SSHException\<close> raised after the loop.
\<close>

theorem run_ssh_retries_every_exception:
  "(\<forall>e w'. (\<forall>s. fst (new_pool t s) = None) \<and> (\<forall>s. fst (pool_item t s) = None)
            \<and> run_ssh t command check_exit_code attempts w = (Inl e, w') \<longrightarrow>
        e = SSHException ssh_failed_template
              (ssh_locals command check_exit_code (min attempts 0) attempts)
        \<and> attempts_made (events w') = attempts_made (events w) + nat attempts)
   \<and> (\<forall>e s0 s1. sshpool w \<and> pool_item t (rstate w) = (None, s0)
            \<and> ssh_execute t command check_exit_code s0 = (Inl e, s1) \<and> 2 \<le> attempts \<longrightarrow>
        (\<exists>rest. events (snd (run_ssh t command check_exit_code attempts w)) =
           events w @ [Executed command check_exit_code, Logged_exception e,
                       Slept (fst (randint t s1)), Executed command check_exit_code] @ rest))
   \<and> ((\<forall>s. fst (new_pool t s) = None) \<and> (\<forall>s. fst (pool_item t s) = None) \<longrightarrow>
        (\<exists>fs. list_all (raised_by t command check_exit_code) fs \<and>
           (case run_ssh t command check_exit_code attempts w of
              (Inl e, w') \<Rightarrow>
                length fs = nat attempts
                \<and> events w' = events w @ concat (map (failed_attempt command check_exit_code) fs)
                                @ [Logged_error (''Error running ssh command: '' @ command)]
            | (Inr r, w') \<Rightarrow>
                length fs < nat attempts
                \<and> (\<exists>s s1. ssh_execute t command check_exit_code s = (Inr r, s1))
                \<and> events w' = events w @ concat (map (failed_attempt command check_exit_code) fs)
                                @ [Executed command check_exit_code])))"
proof (intro conjI allI impI)
  fix e w'
  assume h: "(\<forall>s. fst (new_pool t s) = None) \<and> (\<forall>s. fst (pool_item t s) = None)
            \<and> run_ssh t command check_exit_code attempts w = (Inl e, w')"
  then have a: "\<forall>s. fst (new_pool t s) = None" and b: "\<forall>s. fst (pool_item t s) = None"
    and c: "run_ssh t command check_exit_code attempts w = (Inl e, w')" by blast+
  from run_ssh_failure [OF a b c]
  show "e = SSHException ssh_failed_template
              (ssh_locals command check_exit_code (min attempts 0) attempts)"
    and "attempts_made (events w') = attempts_made (events w) + nat attempts"
    by simp_all
next
  fix e s0 s1
  assume h: "sshpool w \<and> pool_item t (rstate w) = (None, s0)
            \<and> ssh_execute t command check_exit_code s0 = (Inl e, s1) \<and> 2 \<le> attempts"
  let ?c = command and ?k = check_exit_code
  let ?w0 = "w\<lparr>rstate := s0\<rparr>"
  let ?w1 = "?w0\<lparr>rstate := s1, events := events w @ [Executed ?c ?k]\<rparr>"
  let ?w2 = "log_and_sleep t e ?w1"
  have d: "do_ssh_execute t ?c ?k ?w0 = (Inl e, ?w1)"
    using h by (simp add: do_ssh_execute_def)
  have step: "ssh_loop t ?c ?k attempts attempts ?w0 = ssh_loop t ?c ?k attempts (attempts - 1) ?w2"
    using h d by (simp add: ssh_loop.simps [of t ?c ?k attempts attempts ?w0])
  have ev2: "events ?w2 = events w @ [Executed ?c ?k, Logged_exception e, Slept (fst (randint t s1))]"
    by (simp add: log_and_sleep_eq)
  from h have "attempts - 1 > 0" by simp
  from ssh_loop_first_attempt [OF this, of t ?c ?k attempts ?w2]
  obtain evs where
    loop: "events (snd (ssh_loop t ?c ?k attempts (attempts - 1) ?w2)) = events ?w2 @ Executed ?c ?k # evs"
    by blast
  obtain r w3 where l: "ssh_loop t ?c ?k attempts attempts ?w0 = (r, w3)"
    by (cases "ssh_loop t ?c ?k attempts attempts ?w0")
  with step have "snd (ssh_loop t ?c ?k attempts (attempts - 1) ?w2) = w3"
    by (metis snd_conv)
  with loop ev2 have ev3:
    "events w3 = events w @ [Executed ?c ?k, Logged_exception e, Slept (fst (randint t s1)),
                             Executed ?c ?k] @ evs"
    by simp
  have run: "run_ssh t ?c ?k attempts w =
     (case ssh_loop t ?c ?k attempts attempts ?w0 of
        (Inl e, w1) \<Rightarrow>
          (Inl e, w1\<lparr>events := events w1 @ [Logged_error (''Error running ssh command: '' @ ?c)]\<rparr>)
      | (Inr r, w1) \<Rightarrow> (Inr r, w1))"
    using h by (simp add: run_ssh_def Let_def)
  show "\<exists>rest. events (snd (run_ssh t ?c ?k attempts w)) =
           events w @ [Executed ?c ?k, Logged_exception e,
                       Slept (fst (randint t s1)), Executed ?c ?k] @ rest"
  proof (cases r)
    case (Inl e')
    with run l ev3 show ?thesis by simp
  next
    case (Inr res)
    with run l ev3 show ?thesis by simp
  qed
next
  assume "(\<forall>s. fst (new_pool t s) = None) \<and> (\<forall>s. fst (pool_item t s) = None)"
  then have a: "\<forall>s. fst (new_pool t s) = None" and b: "\<forall>s. fst (pool_item t s) = None"
    by blast+
  show "\<exists>fs. list_all (raised_by t command check_exit_code) fs \<and>
           (case run_ssh t command check_exit_code attempts w of
              (Inl e, w') \<Rightarrow>
                length fs = nat attempts
                \<and> events w' = events w @ concat (map (failed_attempt command check_exit_code) fs)
                                @ [Logged_error (''Error running ssh command: '' @ command)]
            | (Inr r, w') \<Rightarrow>
                length fs < nat attempts
                \<and> (\<exists>s s1. ssh_execute t command check_exit_code s = (Inr r, s1))
                \<and> events w' = events w @ concat (map (failed_attempt command check_exit_code) fs)
                                @ [Executed command check_exit_code])"
    by (rule run_ssh_trace [OF a b])
qed

text \<open>
  On the remote side whose first execution exits with code 1: with a budget of 1 the
  caller gets \<open>SSHException\<close>, not the execution error, after the execution, the log
  of its error, the sleep and the log of the command; with a budget of 2 the failed
  execution is followed by its log, a sleep and a second execution.
\<close>

theorem run_ssh_retries_every_exception_witness:
  "fst (run_ssh exit1_then_ok ''lvs vg0'' (PyBool True) 1 (ssh_start 0)) =
     Inl (SSHException ssh_failed_template
            [(''command'', PyStr ''lvs vg0''), (''check_exit_code'', PyBool True),
             (''attempts'', PyInt 0), (''total_attempts'', PyInt 1)])
   \<and> events (snd (run_ssh exit1_then_ok ''lvs vg0'' (PyBool True) 1 (ssh_start 0))) =
       failed_attempt ''lvs vg0'' (PyBool True)
         (ProcessExecutionError 1 [] ''Volume group not found'', 20)
       @ [Logged_error ''Error running ssh command: lvs vg0'']
   \<and> events (snd (run_ssh exit1_then_ok ''lvs vg0'' (PyBool True) 2
                     \<lparr>rstate = 0, sshpool = True, events = []\<rparr>)) =
       [Executed ''lvs vg0'' (PyBool True),
        Logged_exception (ProcessExecutionError 1 [] ''Volume group not found''),
        Slept 20,
        Executed ''lvs vg0'' (PyBool True)]"
  using run_ssh_retries_every_exception
          [of exit1_then_ok "''lvs vg0''" "PyBool True" 1 "ssh_start 0", THEN conjunct1]
        run_ssh_retries_every_exception
          [of exit1_then_ok "''lvs vg0''" "PyBool True" 2
              "\<lparr>rstate = 0, sshpool = True, events = []\<rparr>", THEN conjunct2, THEN conjunct1]
        run_ssh_retries_every_exception
          [of exit1_then_ok "''lvs vg0''" "PyBool True" 1 "ssh_start 0",
           THEN conjunct2, THEN conjunct2]
  by (simp add: run_ssh_def exit1_then_ok_def ssh_start_def ssh_loop.simps do_ssh_execute_def
        log_and_sleep_def ssh_locals_def failed_attempt_def Let_def)

text \<open>
  C2 as stated fails: the remote side delivers the command and the first
  execution exits with code 1. With a budget of 2 the loop logs that error, sleeps and
  executes the command again; the caller gets the output of the second execution and
  never sees the execution error.
\<close>

theorem run_ssh_retry_counterexample:
  "run_ssh exit1_then_ok ''lvs vg0'' (PyBool True) 2 (ssh_start 0) =
     (Inr (''done'', ''''),
      \<lparr>rstate = 2, sshpool = True,
       events = [Executed ''lvs vg0'' (PyBool True),
                 Logged_exception (ProcessExecutionError 1 '''' ''Volume group not found''),
                 Slept 20,
                 Executed ''lvs vg0'' (PyBool True)]\<rparr>)"
  by (simp add: run_ssh_def exit1_then_ok_def ssh_start_def ssh_loop.simps do_ssh_execute_def
        log_and_sleep_def Let_def)

end
